theory Spec2Isabelle
  imports Main
begin

section \<open>JavaScript values\<close>

text \<open>
  The handlers receive JSON values from the client and from the settings store, and
  branch on their truthiness (\<^verbatim>\<open>!x\<close>, \<^verbatim>\<open>x || d\<close>) and on strict equality
  (\<^verbatim>\<open>x === true\<close>, \<^verbatim>\<open>x !== false\<close>). The values are modelled as a datatype.
\<close>

datatype jsval =
    JUndefined
  | JNull
  | JBool bool
  | JNum int
  | JStr string
  | JArr "jsval list"

text \<open>JavaScript's ToBoolean: \<^verbatim>\<open>undefined\<close>, \<^verbatim>\<open>null\<close>, \<^verbatim>\<open>false\<close>,
  \<^verbatim>\<open>0\<close> and the empty string are falsy; every array is truthy.\<close>

fun truthy :: "jsval \<Rightarrow> bool" where
  "truthy JUndefined = False"
| "truthy JNull = False"
| "truthy (JBool b) = b"
| "truthy (JNum n) = (n \<noteq> 0)"
| "truthy (JStr s) = (s \<noteq> [])"
| "truthy (JArr xs) = True"

text \<open>\<^verbatim>\<open>a || b\<close>\<close>

definition js_or :: "jsval \<Rightarrow> jsval \<Rightarrow> jsval" where
  "js_or a b = (if truthy a then a else b)"

text \<open>A property that holds a string or is absent (\<^verbatim>\<open>undefined\<close>/\<^verbatim>\<open>null\<close>):
  \<^verbatim>\<open>!x\<close> is true when it is absent or the empty string.\<close>

fun str_truthy :: "string option \<Rightarrow> bool" where
  "str_truthy None = False"
| "str_truthy (Some s) = (s \<noteq> [])"

definition str_or :: "string option \<Rightarrow> string option \<Rightarrow> string option" where
  "str_or a b = (if str_truthy a then a else b)"

text \<open>\<^verbatim>\<open>a || "d"\<close> with a string literal on the right: the result is a string.\<close>

definition or_default :: "string option \<Rightarrow> string \<Rightarrow> string" where
  "or_default a d = (case a of None \<Rightarrow> d | Some s \<Rightarrow> if s = [] then d else s)"

text \<open>A numeric id that may be absent: \<^verbatim>\<open>!id\<close> is true when it is absent or 0.\<close>

fun id_truthy :: "nat option \<Rightarrow> bool" where
  "id_truthy None = False"
| "id_truthy (Some n) = (n \<noteq> 0)"

text \<open>Exceptions: \<^verbatim>\<open>new Error(msg)\<close> thrown by the code, and the \<^verbatim>\<open>TypeError\<close>
  the runtime throws when a missing method is called.\<close>

datatype js_error = Error string | TypeError string

fun message :: "js_error \<Rightarrow> string" where
  "message (Error m) = m"
| "message (TypeError m) = m"


section \<open>Permission model (server/permissions.js)\<close>

definition PERMISSIONS_admin :: "string list" where
  "PERMISSIONS_admin = [''*'']"

definition PERMISSIONS_viewer :: "string list" where
  "PERMISSIONS_viewer =
     [''monitor:read'', ''heartbeat:read'', ''notification:read'', ''status-page:read'',
      ''maintenance:read'', ''proxy:read'', ''docker-host:read'', ''remote-browser:read'',
      ''api-key:read'', ''tag:read'', ''cert-info:read'']"

text \<open>
  \<^verbatim>\<open>PERMISSIONS\<close> is an object literal, so \<^verbatim>\<open>PERMISSIONS[role]\<close> also finds the
  properties every object inherits from \<^verbatim>\<open>Object.prototype\<close>. Those values are
  truthy and are not arrays: they have no \<^verbatim>\<open>includes\<close> method.
\<close>

definition object_prototype_keys :: "string list" where
  "object_prototype_keys =
     [''constructor'', ''__proto__'', ''hasOwnProperty'', ''isPrototypeOf'',
      ''propertyIsEnumerable'', ''toString'', ''toLocaleString'', ''valueOf'',
      ''__defineGetter__'', ''__defineSetter__'', ''__lookupGetter__'', ''__lookupSetter__'']"

datatype perms_lookup = NoProperty | Perms "string list" | InheritedProperty

definition PERMISSIONS :: "string \<Rightarrow> perms_lookup" where
  "PERMISSIONS role =
     (if role = ''admin'' then Perms PERMISSIONS_admin
      else if role = ''viewer'' then Perms PERMISSIONS_viewer
      else if role \<in> set object_prototype_keys then InheritedProperty
      else NoProperty)"

text \<open>The user object passed to \<^verbatim>\<open>hasPermission\<close>: only its \<^verbatim>\<open>role\<close> property is read.\<close>

record perm_user =
  role :: "string option"

text \<open>The part of a socket the permission checks read.\<close>

record socket =
  userID :: "nat option"
  userRole :: "string option"
  rooms :: "nat list"

text \<open>The common tail of \<^verbatim>\<open>hasPermission\<close> and \<^verbatim>\<open>socketHasPermission\<close>, from
  \<^verbatim>\<open>const perms = PERMISSIONS[role]\<close> on.\<close>

definition perms_decide :: "string \<Rightarrow> string \<Rightarrow> js_error + bool" where
  "perms_decide r permission =
     (case PERMISSIONS r of
        NoProperty \<Rightarrow> Inr False
      | InheritedProperty \<Rightarrow> Inl (TypeError ''perms.includes is not a function'')
      | Perms perms \<Rightarrow>
          if ''*'' \<in> set perms then Inr True
          else Inr (permission \<in> set perms))"

definition hasPermission :: "perm_user option \<Rightarrow> string \<Rightarrow> js_error + bool" where
  "hasPermission user permission =
     (case user of
        None \<Rightarrow> Inr False
      | Some u \<Rightarrow> perms_decide (or_default (role u) ''viewer'') permission)"

definition socketHasPermission :: "socket \<Rightarrow> string \<Rightarrow> js_error + bool" where
  "socketHasPermission sock permission =
     (if \<not> id_truthy (userID sock) then Inr False
      else perms_decide (or_default (userRole sock) ''viewer'') permission)"

definition socketIsAdmin :: "socket \<Rightarrow> bool" where
  "socketIsAdmin sock = (userRole sock = Some ''admin'')"

definition checkAdmin :: "socket \<Rightarrow> js_error + unit" where
  "checkAdmin sock =
     (if \<not> id_truthy (userID sock) then Inl (Error ''You are not logged in.'')
      else if \<not> socketIsAdmin sock then Inl (Error ''Permission denied. Admin access required.'')
      else Inr ())"

definition checkPermission :: "socket \<Rightarrow> string \<Rightarrow> js_error + unit" where
  "checkPermission sock permission =
     (if \<not> id_truthy (userID sock) then Inl (Error ''You are not logged in.'')
      else (case socketHasPermission sock permission of
              Inl e \<Rightarrow> Inl e
            | Inr True \<Rightarrow> Inr ()
            | Inr False \<Rightarrow>
                Inl (Error ''Permission denied. You don't have access to this feature.'')))"

section \<open>Persisted tables, settings store and pending sessions\<close>

text \<open>A row of the \<^verbatim>\<open>user\<close> table (the migration adds \<^verbatim>\<open>role\<close>, \<^verbatim>\<open>entra_oid\<close>,
  \<^verbatim>\<open>email\<close>, \<^verbatim>\<open>display_name\<close> and \<^verbatim>\<open>last_login\<close>); a nullable column is an option.\<close>

record user_row =
  u_id :: nat
  u_username :: string
  u_password :: "string option"
  u_active :: bool
  u_role :: "string option"
  u_entra_oid :: "string option"
  u_email :: "string option"
  u_display_name :: "string option"
  u_last_login :: "int option"

text \<open>A row of the \<^verbatim>\<open>oidc_login_code\<close> table; times are milliseconds since the epoch.\<close>

record login_code_row =
  lc_id :: nat
  lc_code :: string
  lc_user_id :: nat
  lc_expires_at :: int
  lc_used :: bool

text \<open>A value of the in-memory \<^verbatim>\<open>authSessions\<close> map.\<close>

record pending_session =
  codeVerifier :: string
  nonce :: string
  redirectUri :: string
  expiresAt :: int

text \<open>Everything the handlers read and write: the two tables, each with the largest
  key that its auto-increment column has given so far (a key is never given twice, also
  after its row is deleted), the settings store and the \<^verbatim>\<open>authSessions\<close> map of the
  router module.\<close>

record server_state =
  users :: "user_row list"
  user_seq :: nat
  login_codes :: "login_code_row list"
  login_code_seq :: nat
  settings :: "string \<Rightarrow> jsval"
  authSessions :: "string \<rightharpoonup> pending_session"

text \<open>Modelled from the spec: \<^verbatim>\<open>Settings.get\<close> of the settings store
  (\<^verbatim>\<open>../settings\<close> is not among the sources). Section 6: the store "exposes
  \<^verbatim>\<open>get(key)->value|undefined\<close> and \<^verbatim>\<open>set(key, value)->void\<close>"; a key never
  written reads as \<^verbatim>\<open>undefined\<close>.\<close>

definition Settings_get :: "(string \<Rightarrow> jsval) \<Rightarrow> string \<Rightarrow> jsval" where
  "Settings_get store k = store k"

text \<open>Modelled from the spec: \<^verbatim>\<open>Settings.set\<close> of the same store, section 6:
  \<^verbatim>\<open>set(key, value)->void\<close>.\<close>

definition Settings_set :: "(string \<Rightarrow> jsval) \<Rightarrow> string \<Rightarrow> jsval \<Rightarrow> (string \<Rightarrow> jsval)" where
  "Settings_set store k v = store(k := v)"

text \<open>Modelled from the spec: the store of an instance on which no setting was ever
  written; every key reads as \<^verbatim>\<open>undefined\<close>.\<close>

definition empty_settings :: "string \<Rightarrow> jsval" where
  "empty_settings = (\<lambda>k. JUndefined)"

text \<open>Modelled from the spec: \<^verbatim>\<open>checkLogin\<close> of \<^verbatim>\<open>../util-server\<close>, which is not
  among the sources. Section 4.1: \<^verbatim>\<open>requireLoggedIn(session)\<close> "fails with
  \<^verbatim>\<open>Unauthenticated\<close> if no identity bound".\<close>

definition checkLogin :: "socket \<Rightarrow> js_error + unit" where
  "checkLogin sock =
     (if \<not> id_truthy (userID sock) then Inl (Error ''You are not logged in.'') else Inr ())"

subsection \<open>Queries\<close>

text \<open>\<^verbatim>\<open>R.findOne("user", " id = ? AND active = 1 ", [id])\<close>\<close>

definition findOne_user_active :: "user_row list \<Rightarrow> nat \<Rightarrow> user_row option" where
  "findOne_user_active tbl i = find (\<lambda>u. u_id u = i \<and> u_active u) tbl"

text \<open>\<^verbatim>\<open>R.count("user", " role = 'admin' AND active = 1 AND id != ? ", [id])\<close>\<close>

definition count_other_admins :: "user_row list \<Rightarrow> nat \<Rightarrow> nat" where
  "count_other_admins tbl i =
     length (filter (\<lambda>u. u_role u = Some ''admin'' \<and> u_active u \<and> u_id u \<noteq> i) tbl)"

text \<open>\<^verbatim>\<open>R.store(bean)\<close> of a bean that was read from the table: an update of the row
  with the bean's primary key.\<close>

definition store_user :: "user_row list \<Rightarrow> user_row \<Rightarrow> user_row list" where
  "store_user tbl bean = map (\<lambda>u. if u_id u = u_id bean then bean else u) tbl"

definition store_login_code :: "login_code_row list \<Rightarrow> login_code_row \<Rightarrow> login_code_row list" where
  "store_login_code tbl bean = map (\<lambda>r. if lc_id r = lc_id bean then bean else r) tbl"

text \<open>\<^verbatim>\<open>R.trash(bean)\<close>: the row with the bean's primary key is deleted.\<close>

definition trash_login_code :: "login_code_row list \<Rightarrow> login_code_row \<Rightarrow> login_code_row list" where
  "trash_login_code tbl bean = filter (\<lambda>r. lc_id r \<noteq> lc_id bean) tbl"

text \<open>\<^verbatim>\<open>R.findOne("oidc_login_code", " code = ? AND used = 0 ", [code])\<close>\<close>

definition findOne_login_code_unused :: "login_code_row list \<Rightarrow> string \<Rightarrow> login_code_row option" where
  "findOne_login_code_unused tbl c = find (\<lambda>r. lc_code r = c \<and> \<not> lc_used r) tbl"

text \<open>\<^verbatim>\<open>R.exec("DELETE FROM oidc_login_code WHERE user_id = ?", [userId])\<close>\<close>

definition delete_login_codes_of :: "login_code_row list \<Rightarrow> nat \<Rightarrow> login_code_row list" where
  "delete_login_codes_of tbl i = filter (\<lambda>r. lc_user_id r \<noteq> i) tbl"


section \<open>Socket handlers (OIDC socket handler module)\<close>

text \<open>
  Each handler is an \<^verbatim>\<open>async\<close> function that suspends at every database call. The
  definitions of this section give what one call does when it runs alone, from its
  first line to its response, with no other handler running while it is suspended: the
  body of its \<^verbatim>\<open>try\<close> block returns either the thrown error or the new state, and
  the handler turns that into the response passed to the callback. Database calls are
  taken to succeed. What calls do that overlap is the subject of the two sections on
  suspension points below.
\<close>

record response =
  ok :: bool
  msg :: string

subsection \<open>setUserRole\<close>

text \<open>The \<^verbatim>\<open>data\<close> argument when it is an object; a property that is absent is
  \<open>None\<close>. The handler receives \<open>None\<close> when the client sent no object, and
  destructuring it throws.\<close>

record set_role_data =
  d_userId :: "nat option"
  d_role :: "string option"

definition setUserRole_try :: "socket \<Rightarrow> set_role_data option \<Rightarrow> server_state \<Rightarrow> js_error + server_state" where
  "setUserRole_try sock data s =
     (case checkLogin sock of Inl e \<Rightarrow> Inl e | Inr _ \<Rightarrow>
     (case checkAdmin sock of Inl e \<Rightarrow> Inl e | Inr _ \<Rightarrow>
     (case data of
        None \<Rightarrow> Inl (TypeError ''Cannot destructure property 'userId' of 'data' as it is undefined.'')
      | Some d \<Rightarrow>
     (case (d_userId d, d_role d) of
        (Some userId, Some r) \<Rightarrow>
          if userId = 0 \<or> r = []
          then Inl (Error ''User ID and role are required'')
          else if r \<notin> set [''admin'', ''viewer'']
          then Inl (Error (''Invalid role. Must be 'admin' or 'viewer'' @ [CHR 0x27]))
          else if r \<noteq> ''admin'' \<and> count_other_admins (users s) userId = 0
          then Inl (Error ''Cannot remove the last admin. At least one admin must remain.'')
          else (case findOne_user_active (users s) userId of
                  None \<Rightarrow> Inl (Error ''User not found'')
                | Some user \<Rightarrow>
                    Inr (s\<lparr>users := store_user (users s) (user\<lparr>u_role := Some r\<rparr>)\<rparr>))
      | _ \<Rightarrow> Inl (Error ''User ID and role are required'')))))"

definition setUserRole :: "socket \<Rightarrow> set_role_data option \<Rightarrow> server_state \<Rightarrow> response \<times> server_state" where
  "setUserRole sock data s =
     (case setUserRole_try sock data s of
        Inr s' \<Rightarrow> (\<lparr>ok = True, msg = ''userRoleUpdated''\<rparr>, s')
      | Inl e \<Rightarrow> (\<lparr>ok = False, msg = message e\<rparr>, s))"

subsection \<open>deleteUser\<close>

definition deleteUser_try :: "socket \<Rightarrow> nat option \<Rightarrow> server_state \<Rightarrow> js_error + server_state" where
  "deleteUser_try sock arg s =
     (case checkLogin sock of Inl e \<Rightarrow> Inl e | Inr _ \<Rightarrow>
     (case checkAdmin sock of Inl e \<Rightarrow> Inl e | Inr _ \<Rightarrow>
     (case arg of
        None \<Rightarrow> Inl (Error ''User ID is required'')
      | Some userId \<Rightarrow>
          if userId = 0 then Inl (Error ''User ID is required'')
          else if Some userId = userID sock then Inl (Error ''You cannot delete your own account'')
          else (case findOne_user_active (users s) userId of
                  None \<Rightarrow> Inl (Error ''User not found'')
                | Some user \<Rightarrow>
                    if u_role user = Some ''admin'' \<and> count_other_admins (users s) userId = 0
                    then Inl (Error ''Cannot delete the last admin. At least one admin must remain.'')
                    else Inr (s\<lparr>users := store_user (users s) (user\<lparr>u_active := False\<rparr>),
                                login_codes := delete_login_codes_of (login_codes s) userId\<rparr>)))))"

definition deleteUser :: "socket \<Rightarrow> nat option \<Rightarrow> server_state \<Rightarrow> response \<times> server_state" where
  "deleteUser sock arg s =
     (case deleteUser_try sock arg s of
        Inr s' \<Rightarrow> (\<lparr>ok = True, msg = ''userDeleted''\<rparr>, s')
      | Inl e \<Rightarrow> (\<lparr>ok = False, msg = message e\<rparr>, s))"

subsection \<open>Sequences of user-management calls\<close>

datatype user_op = SetUserRole socket "set_role_data option" | DeleteUser socket "nat option"

fun apply_user_op :: "user_op \<Rightarrow> server_state \<Rightarrow> response \<times> server_state" where
  "apply_user_op (SetUserRole sock data) s = setUserRole sock data s"
| "apply_user_op (DeleteUser sock arg) s = deleteUser sock arg s"

text \<open>The states after each call of a sequence, in order.\<close>

fun run_user_ops :: "server_state \<Rightarrow> user_op list \<Rightarrow> server_state list" where
  "run_user_ops s [] = []"
| "run_user_ops s (x # xs) =
     (let s' = snd (apply_user_op x s) in s' # run_user_ops s' xs)"

definition active_admins :: "server_state \<Rightarrow> user_row list" where
  "active_admins s = filter (\<lambda>u. u_active u \<and> u_role u = Some ''admin'') (users s)"

subsection \<open>loginByOidcCode\<close>

text \<open>What the callback receives: \<^verbatim>\<open>{ok: false, msg}\<close> or
  \<^verbatim>\<open>{ok: true, token, role}\<close>.\<close>

datatype login_response =
    LoginFailed string
  | LoginOk string "string option"

text \<open>
  \<open>createJWT\<close> stands for \<^verbatim>\<open>User.createJWT(user, server.jwtSecret)\<close> and \<open>now\<close>
  for the clock read by \<^verbatim>\<open>new Date()\<close>. The result is the response (none when
  \<^verbatim>\<open>callback\<close> is not a function), the socket and the state. The code argument is
  any value the client sent.
\<close>

definition loginByOidcCode ::
  "(user_row \<Rightarrow> string) \<Rightarrow> int \<Rightarrow> bool \<Rightarrow> jsval \<Rightarrow> socket \<Rightarrow> server_state
     \<Rightarrow> login_response option \<times> socket \<times> server_state" where
  "loginByOidcCode createJWT now callback_is_function code sock s =
     (if \<not> callback_is_function then (None, sock, s)
      else (case code of
        JStr c \<Rightarrow>
          if c = [] then (Some (LoginFailed ''Invalid login code''), sock, s)
          else (case findOne_login_code_unused (login_codes s) c of
             None \<Rightarrow> (Some (LoginFailed ''Invalid or expired login code''), sock, s)
           | Some loginCode \<Rightarrow>
               if lc_expires_at loginCode < now
               then (Some (LoginFailed ''Login code expired''), sock,
                     s\<lparr>login_codes := trash_login_code (login_codes s) loginCode\<rparr>)
               else
                 (let s1 = s\<lparr>login_codes :=
                               store_login_code (login_codes s) (loginCode\<lparr>lc_used := True\<rparr>)\<rparr>
                  in (case findOne_user_active (users s1) (lc_user_id loginCode) of
                        None \<Rightarrow> (Some (LoginFailed ''User not found or inactive''), sock, s1)
                      | Some user \<Rightarrow>
                          (Some (LoginOk (createJWT user) (u_role user)),
                           sock\<lparr>userID := Some (u_id user),
                                userRole := Some (or_default (u_role user) ''viewer''),
                                rooms := u_id user # rooms sock\<rparr>,
                           s1))))
      | _ \<Rightarrow> (Some (LoginFailed ''Invalid login code''), sock, s)))"

subsection \<open>getOidcSettings and saveOidcSettings\<close>

text \<open>The settings object of the channel: the \<^verbatim>\<open>settings\<close> of the response of
  \<^verbatim>\<open>getOidcSettings\<close> and the \<^verbatim>\<open>data\<close> of \<^verbatim>\<open>saveOidcSettings\<close>. A property
  that is absent is \<open>JUndefined\<close>.\<close>

record oidc_settings_obj =
  oidcEntraEnabled :: jsval
  oidcEntraTenantId :: jsval
  oidcEntraClientId :: jsval
  oidcEntraClientSecret :: jsval
  oidcEntraAllowedGroups :: jsval
  oidcEntraDefaultRole :: jsval
  oidcEntraAutoCreateUsers :: jsval

definition getOidcSettings_try :: "socket \<Rightarrow> server_state \<Rightarrow> js_error + oidc_settings_obj" where
  "getOidcSettings_try sock s =
     (case checkLogin sock of Inl e \<Rightarrow> Inl e | Inr _ \<Rightarrow>
     (case checkAdmin sock of Inl e \<Rightarrow> Inl e | Inr _ \<Rightarrow>
        Inr \<lparr>oidcEntraEnabled =
               JBool (Settings_get (settings s) ''oidcEntraEnabled'' = JBool True),
             oidcEntraTenantId =
               js_or (Settings_get (settings s) ''oidcEntraTenantId'') (JStr ''''),
             oidcEntraClientId =
               js_or (Settings_get (settings s) ''oidcEntraClientId'') (JStr ''''),
             oidcEntraClientSecret =
               (if truthy (Settings_get (settings s) ''oidcEntraClientSecret'')
                then JStr ''********'' else JStr ''''),
             oidcEntraAllowedGroups =
               js_or (Settings_get (settings s) ''oidcEntraAllowedGroups'') (JArr []),
             oidcEntraDefaultRole =
               js_or (Settings_get (settings s) ''oidcEntraDefaultRole'') (JStr ''viewer''),
             oidcEntraAutoCreateUsers =
               JBool (Settings_get (settings s) ''oidcEntraAutoCreateUsers'' \<noteq> JBool False)\<rparr>))"

text \<open>The response is \<^verbatim>\<open>{ok: true, settings}\<close> or \<^verbatim>\<open>{ok: false, msg}\<close>; the
  handler writes nothing.\<close>

definition getOidcSettings_handler :: "socket \<Rightarrow> server_state \<Rightarrow> string + oidc_settings_obj" where
  "getOidcSettings_handler sock s =
     (case getOidcSettings_try sock s of Inl e \<Rightarrow> Inl (message e) | Inr v \<Rightarrow> Inr v)"

text \<open>\<^verbatim>\<open>str.split(",")\<close>\<close>

fun split_on :: "char \<Rightarrow> string \<Rightarrow> string list" where
  "split_on c [] = [[]]"
| "split_on c (x # xs) =
     (if x = c then [] # split_on c xs
      else (case split_on c xs of
              [] \<Rightarrow> [[x]]
            | w # ws \<Rightarrow> (x # w) # ws))"

text \<open>
  \<^verbatim>\<open>g.trim()\<close>. A string is the sequence of the bytes of its UTF-8 encoding. The
  method strips, at both ends, the code points that ECMAScript counts as white space
  or line terminators: U+0009 to U+000D, U+0020, U+00A0, U+1680, U+2000 to U+200A,
  U+2028, U+2029, U+202F, U+205F, U+3000 and U+FEFF. The table holds their encodings.
\<close>

definition white_space :: "string list" where
  "white_space =
     [[CHR 0x09], [CHR 0x0A], [CHR 0x0B], [CHR 0x0C], [CHR 0x0D], [CHR 0x20],
      [CHR 0xC2, CHR 0xA0],
      [CHR 0xE1, CHR 0x9A, CHR 0x80],
      [CHR 0xE2, CHR 0x80, CHR 0x80], [CHR 0xE2, CHR 0x80, CHR 0x81],
      [CHR 0xE2, CHR 0x80, CHR 0x82], [CHR 0xE2, CHR 0x80, CHR 0x83],
      [CHR 0xE2, CHR 0x80, CHR 0x84], [CHR 0xE2, CHR 0x80, CHR 0x85],
      [CHR 0xE2, CHR 0x80, CHR 0x86], [CHR 0xE2, CHR 0x80, CHR 0x87],
      [CHR 0xE2, CHR 0x80, CHR 0x88], [CHR 0xE2, CHR 0x80, CHR 0x89],
      [CHR 0xE2, CHR 0x80, CHR 0x8A],
      [CHR 0xE2, CHR 0x80, CHR 0xA8], [CHR 0xE2, CHR 0x80, CHR 0xA9],
      [CHR 0xE2, CHR 0x80, CHR 0xAF],
      [CHR 0xE2, CHR 0x81, CHR 0x9F],
      [CHR 0xE3, CHR 0x80, CHR 0x80],
      [CHR 0xEF, CHR 0xBB, CHR 0xBF]]"

text \<open>The string without the longest prefix made of the given byte sequences.\<close>

function strip_start :: "string list \<Rightarrow> string \<Rightarrow> string" where
  "strip_start seqs s =
     (case find (\<lambda>w. w \<noteq> [] \<and> take (length w) s = w) seqs of
        None \<Rightarrow> s
      | Some w \<Rightarrow> strip_start seqs (drop (length w) s))"
  by pat_completeness auto
termination
proof (relation "measure (\<lambda>(seqs, s). length s)")
  show "wf (measure (\<lambda>(seqs, s). length s))" by simp
next
  fix seqs :: "string list" and s w :: string
  assume "find (\<lambda>w. w \<noteq> [] \<and> take (length w) s = w) seqs = Some w"
  then have w: "w \<noteq> []" "take (length w) s = w" by (auto simp: find_Some_iff)
  then have "s \<noteq> []" by auto
  with w(1) have "length (drop (length w) s) < length s" by simp
  then show "((seqs, drop (length w) s), (seqs, s)) \<in> measure (\<lambda>(seqs, s). length s)"
    by simp
qed

declare strip_start.simps [simp del]

text \<open>At the end of the string the encodings are met in reverse.\<close>

definition trim :: "string \<Rightarrow> string" where
  "trim g = rev (strip_start (map rev white_space) (rev (strip_start white_space g)))"

text \<open>\<^verbatim>\<open>allowedGroups.split(",").map(g => g.trim()).filter(g => g)\<close>\<close>

definition parse_groups :: "string \<Rightarrow> jsval" where
  "parse_groups str = JArr (map JStr (filter (\<lambda>g. g \<noteq> []) (map trim (split_on CHR '','' str))))"

definition saveOidcSettings_try ::
  "socket \<Rightarrow> oidc_settings_obj option \<Rightarrow> server_state \<Rightarrow> js_error + server_state" where
  "saveOidcSettings_try sock data s =
     (case checkLogin sock of Inl e \<Rightarrow> Inl e | Inr _ \<Rightarrow>
     (case checkAdmin sock of Inl e \<Rightarrow> Inl e | Inr _ \<Rightarrow>
     (case data of
        None \<Rightarrow> Inl (TypeError ''Cannot read properties of undefined (reading 'oidcEntraEnabled')'')
      | Some d \<Rightarrow>
          if truthy (oidcEntraEnabled d) \<and>
             (\<not> truthy (oidcEntraTenantId d) \<or> \<not> truthy (oidcEntraClientId d))
          then Inl (Error ''Tenant ID and Client ID are required when enabling Entra ID SSO'')
          else if truthy (oidcEntraEnabled d) \<and>
             \<not> truthy (Settings_get (settings s) ''oidcEntraClientSecret'') \<and>
             \<not> truthy (oidcEntraClientSecret d)
          then Inl (Error ''Client Secret is required when enabling Entra ID SSO'')
          else
            (let st1 = Settings_set (settings s) ''oidcEntraEnabled''
                         (JBool (oidcEntraEnabled d = JBool True));
                 st2 = Settings_set st1 ''oidcEntraTenantId''
                         (js_or (oidcEntraTenantId d) (JStr ''''));
                 st3 = Settings_set st2 ''oidcEntraClientId''
                         (js_or (oidcEntraClientId d) (JStr ''''));
                 st4 = (if truthy (oidcEntraClientSecret d) \<and>
                           oidcEntraClientSecret d \<noteq> JStr ''********''
                        then Settings_set st3 ''oidcEntraClientSecret'' (oidcEntraClientSecret d)
                        else st3);
                 allowedGroups = (case oidcEntraAllowedGroups d of
                                    JStr str \<Rightarrow> parse_groups str
                                  | v \<Rightarrow> v);
                 st5 = Settings_set st4 ''oidcEntraAllowedGroups'' (js_or allowedGroups (JArr []));
                 st6 = Settings_set st5 ''oidcEntraDefaultRole''
                         (js_or (oidcEntraDefaultRole d) (JStr ''viewer''));
                 st7 = Settings_set st6 ''oidcEntraAutoCreateUsers''
                         (JBool (oidcEntraAutoCreateUsers d \<noteq> JBool False))
             in Inr (s\<lparr>settings := st7\<rparr>)))))"

definition saveOidcSettings ::
  "socket \<Rightarrow> oidc_settings_obj option \<Rightarrow> server_state \<Rightarrow> response \<times> server_state" where
  "saveOidcSettings sock data s =
     (case saveOidcSettings_try sock data s of
        Inr s' \<Rightarrow> (\<lparr>ok = True, msg = ''oidcSettingsSaved''\<rparr>, s')
      | Inl e \<Rightarrow> (\<lparr>ok = False, msg = message e\<rparr>, s))"

section \<open>OIDC router (OIDC router module)\<close>

text \<open>
  As for the socket handlers, each definition of this section gives what one request
  does when it runs alone. The callback suspends first at line 519, after the state
  token has been looked up and deleted: lines 496 to 517 run without a suspension point.
\<close>

subsection \<open>Settings read by the router\<close>

record oidc_config =
  enabled :: bool
  tenantId :: jsval
  clientId :: jsval
  clientSecret :: jsval
  allowedGroups :: jsval
  defaultRole :: jsval
  autoCreateUsers :: bool

definition getOidcSettings :: "(string \<Rightarrow> jsval) \<Rightarrow> oidc_config" where
  "getOidcSettings store =
     \<lparr>enabled = (Settings_get store ''oidcEntraEnabled'' = JBool True),
      tenantId = Settings_get store ''oidcEntraTenantId'',
      clientId = Settings_get store ''oidcEntraClientId'',
      clientSecret = Settings_get store ''oidcEntraClientSecret'',
      allowedGroups = js_or (Settings_get store ''oidcEntraAllowedGroups'') (JArr []),
      defaultRole = js_or (Settings_get store ''oidcEntraDefaultRole'') (JStr ''viewer''),
      autoCreateUsers = (Settings_get store ''oidcEntraAutoCreateUsers'' \<noteq> JBool False)\<rparr>"

subsection \<open>The periodic sweep\<close>

text \<open>The body of the \<^verbatim>\<open>setInterval\<close> callback, with \<open>now\<close> the value of
  \<^verbatim>\<open>Date.now()\<close>.\<close>

definition sweep :: "int \<Rightarrow> (string \<rightharpoonup> pending_session) \<Rightarrow> (string \<rightharpoonup> pending_session)" where
  "sweep now sessions =
     (\<lambda>key. case sessions key of
               None \<Rightarrow> None
             | Some session \<Rightarrow> if expiresAt session < now then None else Some session)"

subsection \<open>GET /auth/oidc/entra/login\<close>

text \<open>
  What the login leg takes from outside: the clock, whether the discovery of the
  issuer succeeds, the redirect URI computed from the request, and the values drawn by
  \<^verbatim>\<open>generators.codeVerifier()\<close>, \<^verbatim>\<open>generators.state()\<close> and
  \<^verbatim>\<open>generators.nonce()\<close>.
\<close>

record login_env =
  l_now :: int
  l_discover_ok :: bool
  l_redirectUri :: string
  l_codeVerifier :: string
  l_state :: string
  l_nonce :: string

datatype login_result =
    Json_error nat string
  | Redirect_to_provider string string
  | Redirect_login_error string

definition login :: "login_env \<Rightarrow> server_state \<Rightarrow> login_result \<times> server_state" where
  "login env s =
     (let cfg = getOidcSettings (settings s) in
      if \<not> enabled cfg then (Json_error 400 ''Entra ID SSO is not enabled'', s)
      else if \<not> truthy (tenantId cfg) \<or> \<not> truthy (clientId cfg) \<or> \<not> truthy (clientSecret cfg)
      then (Json_error 500 ''Entra ID SSO is not properly configured'', s)
      else if \<not> l_discover_ok env
      then (Redirect_login_error ''Failed to initiate SSO login'', s)
      else (Redirect_to_provider (l_state env) (l_nonce env),
            s\<lparr>authSessions := (authSessions s)(l_state env \<mapsto>
                 \<lparr>codeVerifier = l_codeVerifier env,
                  nonce = l_nonce env,
                  redirectUri = l_redirectUri env,
                  expiresAt = l_now env + 10 * 60 * 1000\<rparr>)\<rparr>))"

subsection \<open>GET /auth/oidc/entra/callback\<close>

text \<open>The query parameters; a parameter that is absent is \<open>None\<close>.\<close>

record callback_query =
  q_code :: "string option"
  q_state :: "string option"
  q_error :: "string option"
  q_error_description :: "string option"

text \<open>The claims of the ID token that the handler reads.\<close>

record claims =
  c_oid :: "string option"
  c_sub :: string
  c_preferred_username :: "string option"
  c_email :: "string option"
  c_name :: "string option"
  c_groups :: "string list option"

text \<open>What is handed to the provider: the client configuration, the query's code and
  state, and the verifier, nonce and redirect URI of the pending session.\<close>

record exchange_request =
  x_tenantId :: jsval
  x_clientId :: jsval
  x_clientSecret :: jsval
  x_redirectUri :: string
  x_code :: "string option"
  x_state :: string
  x_code_verifier :: string
  x_nonce :: string

text \<open>
  What the callback takes from outside: the clock, read once; the provider, which stands for
  \<^verbatim>\<open>Issuer.discover\<close> followed by \<^verbatim>\<open>client.callback\<close> and
  \<^verbatim>\<open>tokenSet.claims()\<close> and either throws or returns the claims; the hex strings of
  \<^verbatim>\<open>crypto.randomBytes(4)\<close> and \<^verbatim>\<open>crypto.randomBytes(32)\<close>; and what the
  database writes into the \<^verbatim>\<open>role\<close> column for a default role (a string is written
  as it is).
\<close>

record callback_env =
  cb_now :: int
  cb_provider :: "exchange_request \<Rightarrow> js_error + claims"
  cb_random_suffix :: string
  cb_random_code :: string
  cb_role_column :: "jsval \<Rightarrow> string option"

text \<open>Every response of the callback is a redirect to \<^verbatim>\<open>/dashboard\<close>, with either
  \<^verbatim>\<open>oidc_error\<close> (the message, before URI encoding) or \<^verbatim>\<open>oidc_code\<close>.\<close>

datatype redirect = Oidc_error string | Oidc_code string

definition msg_invalid_session :: string where
  "msg_invalid_session = ''Invalid or expired authentication session''"

definition msg_session_expired :: string where
  "msg_session_expired = ''Authentication session expired''"

definition msg_not_enabled :: string where
  "msg_not_enabled = ''Entra ID SSO is not enabled''"

definition msg_not_authorized :: string where
  "msg_not_authorized =
     ''You are not authorized to access this application. Please contact your administrator.''"

definition msg_not_provisioned :: string where
  "msg_not_provisioned =
     ''Your account has not been provisioned. Please contact your administrator.''"

text \<open>The message of the \<^verbatim>\<open>catch\<close> block.\<close>

definition msg_failed :: string where
  "msg_failed = ''Authentication failed. Please try again.''"

text \<open>The primary key that an auto-increment column gives to a new row: one more than
  the largest key it has ever given and than every key in the table.\<close>

definition fresh_id :: "nat \<Rightarrow> nat list \<Rightarrow> nat" where
  "fresh_id seq ids = Suc (max seq (fold max ids 0))"

text \<open>
  Lines 603 to 615: the login code is stored and the browser redirected with it. The
  \<^verbatim>\<open>code\<close> column is unique, so the insert of a code that exists throws.
\<close>

definition callback_issue_code :: "callback_env \<Rightarrow> user_row \<Rightarrow> server_state \<Rightarrow> redirect \<times> server_state" where
  "callback_issue_code env user s =
     (let loginCode = cb_random_code env;
          loginCodeBean = \<lparr>lc_id = fresh_id (login_code_seq s) (map lc_id (login_codes s)),
                           lc_code = loginCode,
                           lc_user_id = u_id user,
                           lc_expires_at = cb_now env + 5 * 60 * 1000,
                           lc_used = False\<rparr>
      in if loginCode \<in> set (map lc_code (login_codes s)) then (Oidc_error msg_failed, s)
         else (Oidc_code loginCode,
               s\<lparr>login_codes := login_codes s @ [loginCodeBean],
                 login_code_seq := lc_id loginCodeBean\<rparr>))"

text \<open>\<^verbatim>\<open>bean.column = value\<close> followed by \<^verbatim>\<open>R.store(bean)\<close> for a value that may be
  \<^verbatim>\<open>undefined\<close>: the update leaves an undefined property out, and the column keeps
  what it held.\<close>

definition assign_column :: "string option \<Rightarrow> string option \<Rightarrow> string option" where
  "assign_column old new = (case new of None \<Rightarrow> old | Some v \<Rightarrow> Some v)"

text \<open>
  Lines 565 to 601: find or create the user. \<^verbatim>\<open>userInfo.email.split\<close> throws when
  the claims carry no email; the \<^verbatim>\<open>username\<close> and \<^verbatim>\<open>entra_oid\<close> columns are
  unique (section 3 of the specification, and the migration), so the insert of a row
  that repeats one of them throws.
\<close>

definition callback_resolve_user ::
  "callback_env \<Rightarrow> oidc_config \<Rightarrow> string \<Rightarrow> string option \<Rightarrow> string option \<Rightarrow> server_state
     \<Rightarrow> redirect \<times> server_state" where
  "callback_resolve_user env cfg oid email name s =
     (case find (\<lambda>u. u_entra_oid u = Some oid \<and> u_active u) (users s) of
        None \<Rightarrow>
          if \<not> autoCreateUsers cfg then (Oidc_error msg_not_provisioned, s)
          else (case email of
             None \<Rightarrow> (Oidc_error msg_failed, s)
           | Some e \<Rightarrow>
              (let prefix = takeWhile (\<lambda>c. c \<noteq> CHR ''@'') e;
                   username = (if prefix \<in> set (map u_username (users s))
                               then prefix @ ''_'' @ cb_random_suffix env else prefix);
                   user = \<lparr>u_id = fresh_id (user_seq s) (map u_id (users s)),
                           u_username = username,
                           u_password = None,
                           u_active = True,
                           u_role = cb_role_column env (defaultRole cfg),
                           u_entra_oid = Some oid,
                           u_email = Some e,
                           u_display_name = name,
                           u_last_login = Some (cb_now env)\<rparr>
               in if username \<in> set (map u_username (users s)) \<or>
                     Some oid \<in> set (map u_entra_oid (users s))
                  then (Oidc_error msg_failed, s)
                  else callback_issue_code env user
                         (s\<lparr>users := users s @ [user], user_seq := u_id user\<rparr>)))
      | Some found \<Rightarrow>
          (let user = found\<lparr>u_email := assign_column (u_email found) email,
                            u_display_name := assign_column (u_display_name found) name,
                            u_last_login := Some (cb_now env)\<rparr>
           in callback_issue_code env user (s\<lparr>users := store_user (users s) user\<rparr>)))"

text \<open>
  Lines 554 to 563: the group check. \<open>Inr True\<close> when the flow may go on,
  \<open>Inr False\<close> when the user is in none of the allowed groups. A non-empty string
  has a length and no \<^verbatim>\<open>some\<close> method; a number or a boolean has no length.
\<close>

definition group_check :: "jsval \<Rightarrow> string list \<Rightarrow> js_error + bool" where
  "group_check allowed userGroups =
     (case allowed of
        JArr gs \<Rightarrow>
          if length gs > 0 then Inr (\<exists>g \<in> set gs. \<exists>x \<in> set userGroups. g = JStr x)
          else Inr True
      | JStr str \<Rightarrow>
          if length str > 0 then Inl (TypeError ''settings.allowedGroups.some is not a function'')
          else Inr True
      | _ \<Rightarrow> Inr True)"

text \<open>\<^verbatim>\<open>claims.groups || []\<close>\<close>

definition claimed_groups :: "claims \<Rightarrow> string list" where
  "claimed_groups cl = (case c_groups cl of None \<Rightarrow> [] | Some gs \<Rightarrow> gs)"

text \<open>Lines 542 to 563: the user information is taken from the claims and the group
  check decides.\<close>

definition callback_authorize ::
  "callback_env \<Rightarrow> oidc_config \<Rightarrow> claims \<Rightarrow> server_state \<Rightarrow> redirect \<times> server_state" where
  "callback_authorize env cfg cl s =
     (let oid = or_default (c_oid cl) (c_sub cl);
          email = str_or (c_preferred_username cl) (c_email cl);
          name = c_name cl;
          groups = claimed_groups cl
      in case group_check (allowedGroups cfg) groups of
           Inl e \<Rightarrow> (Oidc_error msg_failed, s)
         | Inr False \<Rightarrow> (Oidc_error msg_not_authorized, s)
         | Inr True \<Rightarrow> callback_resolve_user env cfg oid email name s)"

text \<open>The client configuration of lines 529 to 534 and the arguments of
  \<^verbatim>\<open>client.callback\<close> of lines 537 to 540.\<close>

definition exchange_request_of ::
  "oidc_config \<Rightarrow> callback_query \<Rightarrow> string \<Rightarrow> pending_session \<Rightarrow> exchange_request" where
  "exchange_request_of cfg q state session =
     \<lparr>x_tenantId = tenantId cfg,
      x_clientId = clientId cfg,
      x_clientSecret = clientSecret cfg,
      x_redirectUri = redirectUri session,
      x_code = q_code q,
      x_state = state,
      x_code_verifier = codeVerifier session,
      x_nonce = nonce session\<rparr>"

text \<open>Lines 519 to 543: the settings are read again and the code is exchanged.\<close>

definition callback_exchange ::
  "callback_env \<Rightarrow> callback_query \<Rightarrow> string \<Rightarrow> pending_session \<Rightarrow> server_state
     \<Rightarrow> redirect \<times> server_state" where
  "callback_exchange env q state session s =
     (let cfg = getOidcSettings (settings s) in
      if \<not> enabled cfg then (Oidc_error msg_not_enabled, s)
      else (case cb_provider env (exchange_request_of cfg q state session) of
              Inl e \<Rightarrow> (Oidc_error msg_failed, s)
            | Inr cl \<Rightarrow> callback_authorize env cfg cl s))"

text \<open>Lines 504 to 511: \<^verbatim>\<open>has\<close>, \<^verbatim>\<open>get\<close> and \<^verbatim>\<open>delete\<close> on \<^verbatim>\<open>authSessions\<close>.
  The result is the session found, if any, and the map after the deletion.\<close>

definition consume_state ::
  "string option \<Rightarrow> (string \<rightharpoonup> pending_session)
     \<Rightarrow> pending_session option \<times> (string \<rightharpoonup> pending_session)" where
  "consume_state state sessions =
     (case state of
        None \<Rightarrow> (None, sessions)
      | Some st \<Rightarrow>
          if st = [] then (None, sessions)
          else (case sessions st of
                  None \<Rightarrow> (None, sessions)
                | Some session \<Rightarrow> (Some session, sessions(st := None))))"

text \<open>The handler.\<close>

definition callback :: "callback_env \<Rightarrow> callback_query \<Rightarrow> server_state \<Rightarrow> redirect \<times> server_state" where
  "callback env q s =
     (if str_truthy (q_error q)
      then (Oidc_error (or_default (q_error_description q) (or_default (q_error q) [])), s)
      else (case consume_state (q_state q) (authSessions s) of
              (None, _) \<Rightarrow> (Oidc_error msg_invalid_session, s)
            | (Some session, sessions') \<Rightarrow>
                (let s1 = s\<lparr>authSessions := sessions'\<rparr> in
                 if expiresAt session < cb_now env then (Oidc_error msg_session_expired, s1)
                 else callback_exchange env q (or_default (q_state q) []) session s1)))"

subsection \<open>Runs of the router\<close>

text \<open>The events that touch \<^verbatim>\<open>authSessions\<close>: a login leg, a callback, a sweep.\<close>

datatype router_event =
    Login login_env
  | Callback callback_env callback_query
  | Sweep int

fun router_step :: "router_event \<Rightarrow> server_state \<Rightarrow> server_state" where
  "router_step (Login env) s = snd (login env s)"
| "router_step (Callback env q) s = snd (callback env q s)"
| "router_step (Sweep t) s = s\<lparr>authSessions := sweep t (authSessions s)\<rparr>"

definition router_run :: "router_event list \<Rightarrow> server_state \<Rightarrow> server_state" where
  "router_run evs s = fold router_step evs s"

text \<open>The state tokens that the login legs of a run draw.\<close>

fun drawn_states :: "router_event list \<Rightarrow> string list" where
  "drawn_states [] = []"
| "drawn_states (Login env # evs) = l_state env # drawn_states evs"
| "drawn_states (_ # evs) = drawn_states evs"

section \<open>Predicates of the properties\<close>


definition codes_wf :: "server_state \<Rightarrow> bool" where
  "codes_wf s = distinct (map lc_code (login_codes s))"

definition has_active_admin :: "server_state \<Rightarrow> bool" where
  "has_active_admin s = (active_admins s \<noteq> [])"

text \<open>No row of the table holds the code \<open>c\<close> unused: \<open>c\<close> was never issued, or it
  was deleted, or it is marked used.\<close>

definition all_used :: "string \<Rightarrow> server_state \<Rightarrow> bool" where
  "all_used c s = (\<forall>r \<in> set (login_codes s). lc_code r = c \<longrightarrow> lc_used r)"

text \<open>One call of \<^verbatim>\<open>loginByOidcCode\<close> with its arguments, and the state it leaves.\<close>

record exchange_call =
  e_createJWT :: "user_row \<Rightarrow> string"
  e_now :: int
  e_callback_is_function :: bool
  e_code :: jsval
  e_socket :: socket

definition exchange_step :: "exchange_call \<Rightarrow> server_state \<Rightarrow> server_state" where
  "exchange_step e s =
     snd (snd (loginByOidcCode (e_createJWT e) (e_now e) (e_callback_is_function e)
                 (e_code e) (e_socket e) s))"

text \<open>What \<open>saveOidcSettings\<close> stores under \<^verbatim>\<open>oidcEntraAllowedGroups\<close>: a string is
  parsed, and a falsy value becomes the empty list.\<close>

definition saved_groups :: "jsval \<Rightarrow> jsval" where
  "saved_groups g = js_or (case g of JStr str \<Rightarrow> parse_groups str | v \<Rightarrow> v) (JArr [])"

text \<open>A socket on which an admin is logged in.\<close>

definition admin_session :: "socket \<Rightarrow> bool" where
  "admin_session sock = (id_truthy (userID sock) \<and> userRole sock = Some ''admin'')"

text \<open>A payload that is an OidcSettings value of section 3 of the specification: the
  ids are strings, the groups a list, the default role a non-empty string and the
  provisioning flag a boolean.\<close>

fun is_JStr :: "jsval \<Rightarrow> bool" where
  "is_JStr (JStr _) = True"
| "is_JStr _ = False"

fun is_JArr :: "jsval \<Rightarrow> bool" where
  "is_JArr (JArr _) = True"
| "is_JArr _ = False"

fun is_JBool :: "jsval \<Rightarrow> bool" where
  "is_JBool (JBool _) = True"
| "is_JBool _ = False"

definition typed_payload :: "oidc_settings_obj \<Rightarrow> bool" where
  "typed_payload d =
     (is_JStr (oidcEntraTenantId d) \<and> is_JStr (oidcEntraClientId d) \<and>
      is_JArr (oidcEntraAllowedGroups d) \<and>
      is_JStr (oidcEntraDefaultRole d) \<and> truthy (oidcEntraDefaultRole d) \<and>
      is_JBool (oidcEntraAutoCreateUsers d))"


section \<open>Example values\<close>

definition ex_alice :: user_row where
  "ex_alice = \<lparr>u_id = 1, u_username = ''alice'', u_password = Some ''hash'', u_active = True,
               u_role = Some ''admin'', u_entra_oid = None, u_email = None,
               u_display_name = None, u_last_login = None\<rparr>"

definition ex_bob :: user_row where
  "ex_bob = \<lparr>u_id = 2, u_username = ''bob'', u_password = None, u_active = True,
             u_role = Some ''viewer'', u_entra_oid = Some ''oid-bob'', u_email = Some ''bob@x.io'',
             u_display_name = Some ''Bob'', u_last_login = None\<rparr>"

definition ex_carol :: user_row where
  "ex_carol = \<lparr>u_id = 3, u_username = ''carol'', u_password = None, u_active = False,
               u_role = Some ''viewer'', u_entra_oid = Some ''oid-carol'', u_email = None,
               u_display_name = None, u_last_login = None\<rparr>"

text \<open>Four login codes: one live, one used, one expired at time 100, one of the
  deleted user.\<close>

definition ex_codes :: "login_code_row list" where
  "ex_codes =
     [\<lparr>lc_id = 1, lc_code = ''live'', lc_user_id = 2, lc_expires_at = 5000, lc_used = False\<rparr>,
      \<lparr>lc_id = 2, lc_code = ''used'', lc_user_id = 2, lc_expires_at = 5000, lc_used = True\<rparr>,
      \<lparr>lc_id = 3, lc_code = ''old'', lc_user_id = 2, lc_expires_at = 100, lc_used = False\<rparr>,
      \<lparr>lc_id = 4, lc_code = ''gone'', lc_user_id = 3, lc_expires_at = 5000, lc_used = False\<rparr>]"

definition ex_state :: server_state where
  "ex_state = \<lparr>users = [ex_alice, ex_bob, ex_carol], user_seq = 3,
               login_codes = ex_codes, login_code_seq = 4,
               settings = empty_settings, authSessions = Map.empty\<rparr>"

definition ex_admin_socket :: socket where
  "ex_admin_socket = \<lparr>userID = Some 1, userRole = Some ''admin'', rooms = [1]\<rparr>"

definition ex_bob_socket :: socket where
  "ex_bob_socket = \<lparr>userID = Some 2, userRole = Some ''admin'', rooms = [2]\<rparr>"

definition ex_new_socket :: socket where
  "ex_new_socket = \<lparr>userID = None, userRole = None, rooms = []\<rparr>"

definition ex_jwt :: "user_row \<Rightarrow> string" where
  "ex_jwt u = ''jwt-'' @ u_username u"

definition ex_demote :: "nat \<Rightarrow> set_role_data option" where
  "ex_demote i = Some \<lparr>d_userId = Some i, d_role = Some ''viewer''\<rparr>"



text \<open>A settings payload as the settings page sends it.\<close>

definition ex_payload :: oidc_settings_obj where
  "ex_payload = \<lparr>oidcEntraEnabled = JBool True, oidcEntraTenantId = JStr ''t1'',
                 oidcEntraClientId = JStr ''c1'', oidcEntraClientSecret = JStr ''s1'',
                 oidcEntraAllowedGroups = JArr [JStr ''G1''],
                 oidcEntraDefaultRole = JStr ''viewer'',
                 oidcEntraAutoCreateUsers = JBool False\<rparr>"

text \<open>The state after the admin has saved that payload.\<close>

definition ex_configured :: server_state where
  "ex_configured = snd (saveOidcSettings ex_admin_socket (Some ex_payload) ex_state)"

text \<open>A login leg at time 1000 that draws the state token \<^verbatim>\<open>S1\<close>, the state it
  leaves, and the session it registers (which expires at 601000).\<close>

definition ex_login_env :: login_env where
  "ex_login_env = \<lparr>l_now = 1000, l_discover_ok = True, l_redirectUri = ''https://kuma/cb'',
                   l_codeVerifier = ''ver'', l_state = ''S1'', l_nonce = ''n1''\<rparr>"

definition ex_logged :: server_state where
  "ex_logged = snd (login ex_login_env ex_configured)"

definition ex_session :: pending_session where
  "ex_session = \<lparr>codeVerifier = ''ver'', nonce = ''n1'', redirectUri = ''https://kuma/cb'',
                 expiresAt = 601000\<rparr>"

text \<open>The callback of the provider for that token, and the same with a provider error.\<close>

definition ex_query :: callback_query where
  "ex_query = \<lparr>q_code = Some ''ac'', q_state = Some ''S1'', q_error = None,
               q_error_description = None\<rparr>"

definition ex_error_query :: callback_query where
  "ex_error_query = \<lparr>q_code = None, q_state = Some ''S1'', q_error = Some ''access_denied'',
                     q_error_description = Some ''The user denied consent''\<rparr>"

text \<open>A provider that authenticates Bob as a member of the given groups, and the
  environment of a callback at time \<open>t\<close> with that provider.\<close>

definition ex_claims :: "string list \<Rightarrow> claims" where
  "ex_claims gs = \<lparr>c_oid = Some ''oid-bob'', c_sub = ''sub-bob'',
                   c_preferred_username = Some ''bob@x.io'', c_email = None,
                   c_name = Some ''Bob'', c_groups = Some gs\<rparr>"

definition ex_env :: "int \<Rightarrow> string list \<Rightarrow> callback_env" where
  "ex_env t gs = \<lparr>cb_now = t, cb_provider = (\<lambda>req. Inr (ex_claims gs)),
                  cb_random_suffix = ''0a1b2c3d'', cb_random_code = ''rnd'',
                  cb_role_column = (\<lambda>v. case v of JStr r \<Rightarrow> Some r | _ \<Rightarrow> None)\<rparr>"


section \<open>The exchange handler between its suspension points\<close>

text \<open>
  \<open>loginByOidcCode\<close> is an \<^verbatim>\<open>async\<close> function: it runs until it issues a database
  call, suspends at the \<^verbatim>\<open>await\<close>, and is resumed with the result; between two
  suspension points nothing else runs, and while it is suspended other handlers do.
  A task is the point where one call of the handler stands: the event received and the
  handler not yet run; suspended at line 40, 55, 64 or 67 (with the result it will be
  resumed with, or the bean it holds); or finished, with the response it gave and its
  socket. A database call takes effect when it is issued.
\<close>

datatype exchange_task =
    Received
  | Awaiting_code "login_code_row option"
  | Awaiting_trash
  | Awaiting_store login_code_row
  | Awaiting_user "user_row option"
  | Responded "login_response option" socket




text \<open>The responses of calls that run one after the other, none overlapping another.\<close>

fun exchange_responses :: "exchange_call list \<Rightarrow> server_state \<Rightarrow> login_response option list" where
  "exchange_responses [] s = []"
| "exchange_responses (e # es) s =
     fst (loginByOidcCode (e_createJWT e) (e_now e) (e_callback_is_function e) (e_code e)
            (e_socket e) s)
     # exchange_responses es (exchange_step e s)"



text \<open>Two sockets that exchange the live code of the example at the same time.\<close>

definition ex_call :: "nat \<Rightarrow> exchange_call" where
  "ex_call n = \<lparr>e_createJWT = ex_jwt, e_now = 1000, e_callback_is_function = True,
                e_code = JStr ''live'',
                e_socket = \<lparr>userID = None, userRole = None, rooms = [n]\<rparr>\<rparr>"


section \<open>The user-management handlers between their suspension points\<close>

text \<open>
  \<open>setUserRole\<close> suspends at the count of line 243 (when the new role is not
  \<^verbatim>\<open>admin\<close>), the lookup of line 249 and the store of line 256; \<open>deleteUser\<close> at the
  lookup of line 292, the count of line 299 (when the user is an admin), the store of
  line 307 and the deletion of line 310. A task is the point where one call stands,
  with the local variables it holds and the result it will be resumed with. As for the
  exchange of login codes, a database call takes effect when it is issued.
\<close>

datatype user_task =
    Call_received
  | Awaiting_count nat string nat
  | Awaiting_user string "user_row option"
  | Awaiting_role_store
  | Awaiting_victim nat "user_row option"
  | Awaiting_victim_count nat user_row nat
  | Awaiting_victim_store nat
  | Awaiting_purge
  | Call_answered response

text \<open>The response of the \<^verbatim>\<open>catch\<close> block.\<close>

definition thrown :: "js_error \<Rightarrow> user_task" where
  "thrown e = Call_answered \<lparr>ok = False, msg = message e\<rparr>"

text \<open>One step runs a call from where it stands to its next suspension point.\<close>

fun user_task_step :: "user_op \<Rightarrow> user_task \<Rightarrow> server_state \<Rightarrow> user_task \<times> server_state" where
  "user_task_step (SetUserRole sock data) Call_received s =
     (case checkLogin sock of Inl e \<Rightarrow> (thrown e, s) | Inr _ \<Rightarrow>
     (case checkAdmin sock of Inl e \<Rightarrow> (thrown e, s) | Inr _ \<Rightarrow>
     (case data of
        None \<Rightarrow>
          (thrown (TypeError
             ''Cannot destructure property 'userId' of 'data' as it is undefined.''), s)
      | Some d \<Rightarrow>
     (case (d_userId d, d_role d) of
        (Some userId, Some r) \<Rightarrow>
          if userId = 0 \<or> r = []
          then (thrown (Error ''User ID and role are required''), s)
          else if r \<notin> set [''admin'', ''viewer'']
          then (thrown (Error (''Invalid role. Must be 'admin' or 'viewer'' @ [CHR 0x27])), s)
          else if r \<noteq> ''admin''
          then (Awaiting_count userId r (count_other_admins (users s) userId), s)
          else (Awaiting_user r (findOne_user_active (users s) userId), s)
      | _ \<Rightarrow> (thrown (Error ''User ID and role are required''), s)))))"
| "user_task_step (DeleteUser sock arg) Call_received s =
     (case checkLogin sock of Inl e \<Rightarrow> (thrown e, s) | Inr _ \<Rightarrow>
     (case checkAdmin sock of Inl e \<Rightarrow> (thrown e, s) | Inr _ \<Rightarrow>
     (case arg of
        None \<Rightarrow> (thrown (Error ''User ID is required''), s)
      | Some userId \<Rightarrow>
          if userId = 0 then (thrown (Error ''User ID is required''), s)
          else if Some userId = userID sock
          then (thrown (Error ''You cannot delete your own account''), s)
          else (Awaiting_victim userId (findOne_user_active (users s) userId), s))))"
| "user_task_step x (Awaiting_count userId r n) s =
     (if n = 0
      then (thrown (Error ''Cannot remove the last admin. At least one admin must remain.''), s)
      else (Awaiting_user r (findOne_user_active (users s) userId), s))"
| "user_task_step x (Awaiting_user r None) s = (thrown (Error ''User not found''), s)"
| "user_task_step x (Awaiting_user r (Some user)) s =
     (Awaiting_role_store, s\<lparr>users := store_user (users s) (user\<lparr>u_role := Some r\<rparr>)\<rparr>)"
| "user_task_step x Awaiting_role_store s =
     (Call_answered \<lparr>ok = True, msg = ''userRoleUpdated''\<rparr>, s)"
| "user_task_step x (Awaiting_victim userId None) s = (thrown (Error ''User not found''), s)"
| "user_task_step x (Awaiting_victim userId (Some user)) s =
     (if u_role user = Some ''admin''
      then (Awaiting_victim_count userId user (count_other_admins (users s) userId), s)
      else (Awaiting_victim_store userId,
            s\<lparr>users := store_user (users s) (user\<lparr>u_active := False\<rparr>)\<rparr>))"
| "user_task_step x (Awaiting_victim_count userId user n) s =
     (if n = 0
      then (thrown (Error ''Cannot delete the last admin. At least one admin must remain.''), s)
      else (Awaiting_victim_store userId,
            s\<lparr>users := store_user (users s) (user\<lparr>u_active := False\<rparr>)\<rparr>))"
| "user_task_step x (Awaiting_victim_store userId) s =
     (Awaiting_purge, s\<lparr>login_codes := delete_login_codes_of (login_codes s) userId\<rparr>)"
| "user_task_step x Awaiting_purge s =
     (Call_answered \<lparr>ok = True, msg = ''userDeleted''\<rparr>, s)"
| "user_task_step x (Call_answered r) s = (Call_answered r, s)"


text \<open>Several calls under a schedule: each number of the schedule resumes the call of
  that index for one step.\<close>

fun run_user_schedule ::
  "nat list \<Rightarrow> user_op list \<Rightarrow> user_task list \<Rightarrow> server_state
     \<Rightarrow> user_task list \<times> server_state" where
  "run_user_schedule [] xs ts s = (ts, s)"
| "run_user_schedule (i # sched) xs ts s =
     (if i < length ts \<and> i < length xs
      then (case user_task_step (xs ! i) (ts ! i) s of
              (t', s') \<Rightarrow> run_user_schedule sched xs (ts[i := t']) s')
      else run_user_schedule sched xs ts s)"

text \<open>Alice and Bob are both admins, and each demotes the other at the same time.\<close>

definition ex_two_admins :: server_state where
  "ex_two_admins = ex_state\<lparr>users := [ex_alice, ex_bob\<lparr>u_role := Some ''admin''\<rparr>, ex_carol]\<rparr>"

definition ex_mutual_demotion :: "user_op list" where
  "ex_mutual_demotion =
     [SetUserRole ex_admin_socket (ex_demote 2), SetUserRole ex_bob_socket (ex_demote 1)]"

text \<open>The same, each deleting the other.\<close>

definition ex_mutual_deletion :: "user_op list" where
  "ex_mutual_deletion =
     [DeleteUser ex_admin_socket (Some 2), DeleteUser ex_bob_socket (Some 1)]"

text \<open>A payload whose groups are typed into one string, with blanks, an empty part
  and a no-break space (U+00A0).\<close>

definition ex_string_payload :: oidc_settings_obj where
  "ex_string_payload =
     ex_payload\<lparr>oidcEntraAllowedGroups :=
                   JStr ('' G1 ,, G2'' @ [CHR 0xC2, CHR 0xA0] @ '','')\<rparr>"

text \<open>A payload that leaves out everything but the switch.\<close>

definition ex_bare_payload :: oidc_settings_obj where
  "ex_bare_payload = \<lparr>oidcEntraEnabled = JBool False, oidcEntraTenantId = JUndefined,
                      oidcEntraClientId = JUndefined, oidcEntraClientSecret = JUndefined,
                      oidcEntraAllowedGroups = JUndefined,
                      oidcEntraDefaultRole = JStr [],
                      oidcEntraAutoCreateUsers = JUndefined\<rparr>"


section \<open>Properties of the permission model\<close>

lemma perms_decide_unknown:
  "r \<noteq> ''admin'' \<Longrightarrow> r \<noteq> ''viewer'' \<Longrightarrow> r \<notin> set object_prototype_keys \<Longrightarrow>
   perms_decide r p = Inr False"
  by (simp add: perms_decide_def PERMISSIONS_def)

lemma perms_decide_viewer: "perms_decide ''viewer'' p = Inr (p \<in> set PERMISSIONS_viewer)"
  by (simp add: perms_decide_def PERMISSIONS_def PERMISSIONS_viewer_def)

text \<open>
  C3, as amended. A role that is a non-empty string other than \<^verbatim>\<open>admin\<close> and
  \<^verbatim>\<open>viewer\<close> (and not the name of a property inherited from \<^verbatim>\<open>Object.prototype\<close>)
  grants nothing: \<open>hasPermission\<close> and \<open>socketHasPermission\<close> return false for every
  permission; so do a missing user and a socket without a user id. A missing or empty
  role is read as \<^verbatim>\<open>viewer\<close>: it grants exactly the viewer's permissions.
\<close>

theorem unknown_role_denied:
  "(r \<noteq> [] \<and> r \<noteq> ''admin'' \<and> r \<noteq> ''viewer'' \<and> r \<notin> set object_prototype_keys \<longrightarrow>
      hasPermission (Some \<lparr>role = Some r\<rparr>) p = Inr False \<and>
      socketHasPermission \<lparr>userID = uid, userRole = Some r, rooms = rs\<rparr> p = Inr False)
   \<and> hasPermission None p = Inr False
   \<and> socketHasPermission \<lparr>userID = None, userRole = ur, rooms = rs\<rparr> p = Inr False
   \<and> hasPermission (Some \<lparr>role = None\<rparr>) p = Inr (p \<in> set PERMISSIONS_viewer)
   \<and> hasPermission (Some \<lparr>role = Some []\<rparr>) p = Inr (p \<in> set PERMISSIONS_viewer)
   \<and> (id_truthy uid \<longrightarrow>
        socketHasPermission \<lparr>userID = uid, userRole = None, rooms = rs\<rparr> p
          = Inr (p \<in> set PERMISSIONS_viewer))
   \<and> (id_truthy uid \<longrightarrow>
        socketHasPermission \<lparr>userID = uid, userRole = Some [], rooms = rs\<rparr> p
          = Inr (p \<in> set PERMISSIONS_viewer))"
  by (simp add: hasPermission_def socketHasPermission_def or_default_def
      perms_decide_unknown perms_decide_viewer)

theorem unknown_role_denied_witness:
  "hasPermission (Some \<lparr>role = Some ''editor''\<rparr>) ''monitor:read'' = Inr False \<and>
   socketHasPermission \<lparr>userID = Some 3, userRole = Some ''editor'', rooms = []\<rparr>
     ''monitor:read'' = Inr False \<and>
   socketHasPermission \<lparr>userID = Some 3, userRole = None, rooms = []\<rparr>
     ''monitor:read'' = Inr True \<and>
   socketHasPermission \<lparr>userID = Some 3, userRole = None, rooms = []\<rparr>
     ''monitor:write'' = Inr False"
  using unknown_role_denied [of "''editor''" "''monitor:read''" "Some 3" "[]" None]
        unknown_role_denied [of "''editor''" "''monitor:write''" "Some 3" "[]" None]
  by (simp add: object_prototype_keys_def PERMISSIONS_viewer_def)

text \<open>C3 as stated fails: a user object without a role is granted \<^verbatim>\<open>monitor:read\<close>.\<close>

theorem missing_role_counterexample:
  "hasPermission (Some \<lparr>role = None\<rparr>) ''monitor:read'' = Inr True"
  by (simp add: hasPermission_def or_default_def perms_decide_def PERMISSIONS_def
      PERMISSIONS_viewer_def)


section \<open>The last active admin\<close>



























text \<open>The same happens when each deletes the other: both deletions succeed.\<close>

lemma ex_overlapping_deletions:
  "fst (run_user_schedule [0, 1, 0, 1, 0, 1, 0, 1, 0, 1] ex_mutual_deletion
       [Call_received, Call_received] ex_two_admins)
     = [Call_answered \<lparr>ok = True, msg = ''userDeleted''\<rparr>,
         Call_answered \<lparr>ok = True, msg = ''userDeleted''\<rparr>]
   \<and> active_admins (snd (run_user_schedule [0, 1, 0, 1, 0, 1, 0, 1, 0, 1] ex_mutual_deletion
       [Call_received, Call_received] ex_two_admins)) = []"
  by (simp add: ex_mutual_deletion_def ex_two_admins_def ex_state_def ex_admin_socket_def
      ex_bob_socket_def checkLogin_def checkAdmin_def socketIsAdmin_def
      count_other_admins_def findOne_user_active_def store_user_def active_admins_def
      ex_alice_def ex_bob_def ex_carol_def delete_login_codes_of_def ex_codes_def)

text \<open>Run one after the other, the second of the two demotions is refused.\<close>

lemma ex_sequential_demotions:
  "map (\<lambda>t. has_active_admin t) (run_user_ops ex_two_admins ex_mutual_demotion) = [True, True]
   \<and> \<not> ok (fst (setUserRole ex_bob_socket (ex_demote 1)
              (snd (setUserRole ex_admin_socket (ex_demote 2) ex_two_admins))))"
  by (simp add: ex_mutual_demotion_def ex_two_admins_def ex_state_def ex_admin_socket_def
      ex_bob_socket_def ex_demote_def checkLogin_def checkAdmin_def socketIsAdmin_def
      count_other_admins_def findOne_user_active_def store_user_def setUserRole_def
      setUserRole_try_def has_active_admin_def active_admins_def Let_def
      ex_alice_def ex_bob_def ex_carol_def)


section \<open>Exchange of login codes\<close>

lemma find_None_all_used:
  "findOne_login_code_unused (login_codes s) c = None \<longleftrightarrow> all_used c s"
  by (auto simp: findOne_login_code_unused_def all_used_def find_None_iff)

text \<open>A code with no unused row is answered like a code that was never issued, and
  nothing is written.\<close>

lemma loginByOidcCode_all_used:
  "c \<noteq> [] \<Longrightarrow> all_used c s \<Longrightarrow>
   loginByOidcCode jwt t True (JStr c) sock s
     = (Some (LoginFailed ''Invalid or expired login code''), sock, s)"
  using find_None_all_used [of s c] by (simp add: loginByOidcCode_def)

lemma findOne_login_code_Some:
  "findOne_login_code_unused tbl c = Some row \<Longrightarrow>
   row \<in> set tbl \<and> lc_code row = c \<and> \<not> lc_used row"
  by (auto simp: findOne_login_code_unused_def find_Some_iff)

lemma unique_code_row:
  "distinct (map lc_code tbl) \<Longrightarrow> row \<in> set tbl \<Longrightarrow> r \<in> set tbl \<Longrightarrow>
   lc_code r = lc_code row \<Longrightarrow> r = row"
  by (meson distinct_map inj_onD)


lemma all_used_after_trash:
  assumes wf: "codes_wf s" and row: "row \<in> set (login_codes s)"
  shows "all_used (lc_code row) (s\<lparr>login_codes := trash_login_code (login_codes s) row\<rparr>)"
proof -
  have "r = row" if "r \<in> set (login_codes s)" "lc_code r = lc_code row" for r
    using wf row that unfolding codes_wf_def by (simp add: unique_code_row)
  then show ?thesis
    by (auto simp: all_used_def trash_login_code_def)
qed




lemma ex_codes_wf: "codes_wf ex_state"
  by (simp add: codes_wf_def ex_state_def ex_codes_def)



text \<open>
  C5, as amended. A code all of whose rows are used is treated exactly like a code
  that was never issued: the same response "Invalid or expired login code", the same
  socket, the same state. A code found unused and expired is rejected as well, but
  with the message "Login code expired"; its row is deleted, so that (the codes being
  distinct) every later exchange of it is answered like an unknown code.
\<close>

theorem used_code_like_unknown:
  "(c \<noteq> [] \<and> c' \<noteq> [] \<and> c \<in> set (map lc_code (login_codes s)) \<and> all_used c s \<and>
    c' \<notin> set (map lc_code (login_codes s)) \<longrightarrow>
      loginByOidcCode jwt t True (JStr c) sock s = loginByOidcCode jwt t True (JStr c') sock s \<and>
      loginByOidcCode jwt t True (JStr c) sock s
        = (Some (LoginFailed ''Invalid or expired login code''), sock, s))
   \<and> (c \<noteq> [] \<and> findOne_login_code_unused (login_codes s) c = Some row \<and>
       lc_expires_at row < t \<longrightarrow>
      loginByOidcCode jwt t True (JStr c) sock s
        = (Some (LoginFailed ''Login code expired''), sock,
           s\<lparr>login_codes := trash_login_code (login_codes s) row\<rparr>) \<and>
      (codes_wf s \<longrightarrow>
         loginByOidcCode jwt' t' True (JStr c) sock2
             (s\<lparr>login_codes := trash_login_code (login_codes s) row\<rparr>)
           = (Some (LoginFailed ''Invalid or expired login code''), sock2,
              s\<lparr>login_codes := trash_login_code (login_codes s) row\<rparr>)))"
proof (intro conjI impI)
  assume h: "c \<noteq> [] \<and> c' \<noteq> [] \<and> c \<in> set (map lc_code (login_codes s)) \<and> all_used c s \<and>
    c' \<notin> set (map lc_code (login_codes s))"
  then have "all_used c' s" by (auto simp: all_used_def)
  with h have c': "loginByOidcCode jwt t True (JStr c') sock s
        = (Some (LoginFailed ''Invalid or expired login code''), sock, s)"
    by (simp add: loginByOidcCode_all_used)
  from h show c: "loginByOidcCode jwt t True (JStr c) sock s
        = (Some (LoginFailed ''Invalid or expired login code''), sock, s)"
    by (simp add: loginByOidcCode_all_used)
  from c c' show "loginByOidcCode jwt t True (JStr c) sock s
        = loginByOidcCode jwt t True (JStr c') sock s"
    by simp
next
  assume h: "c \<noteq> [] \<and> findOne_login_code_unused (login_codes s) c = Some row \<and>
       lc_expires_at row < t"
  then show "loginByOidcCode jwt t True (JStr c) sock s
        = (Some (LoginFailed ''Login code expired''), sock,
           s\<lparr>login_codes := trash_login_code (login_codes s) row\<rparr>)"
    by (simp add: loginByOidcCode_def)
  assume wf: "codes_wf s"
  from h findOne_login_code_Some [of "login_codes s" c row]
  have row: "row \<in> set (login_codes s)" "lc_code row = c" by simp_all
  from all_used_after_trash [OF wf row(1)] row(2)
  have "all_used c (s\<lparr>login_codes := trash_login_code (login_codes s) row\<rparr>)" by simp
  with h show "loginByOidcCode jwt' t' True (JStr c) sock2
             (s\<lparr>login_codes := trash_login_code (login_codes s) row\<rparr>)
           = (Some (LoginFailed ''Invalid or expired login code''), sock2,
              s\<lparr>login_codes := trash_login_code (login_codes s) row\<rparr>)"
    by (simp add: loginByOidcCode_all_used)
qed

lemma ex_find_old:
  "findOne_login_code_unused (login_codes ex_state) ''old''
     = Some \<lparr>lc_id = 3, lc_code = ''old'', lc_user_id = 2, lc_expires_at = 100, lc_used = False\<rparr>"
  by (simp add: findOne_login_code_unused_def ex_state_def ex_codes_def)

lemma ex_used_all_used: "all_used ''used'' ex_state"
  by (simp add: all_used_def ex_state_def ex_codes_def)

theorem used_code_like_unknown_witness:
  "loginByOidcCode ex_jwt 1000 True (JStr ''used'') ex_new_socket ex_state
     = loginByOidcCode ex_jwt 1000 True (JStr ''none'') ex_new_socket ex_state
   \<and> fst (loginByOidcCode ex_jwt 1000 True (JStr ''used'') ex_new_socket ex_state)
       = Some (LoginFailed ''Invalid or expired login code'')
   \<and> fst (loginByOidcCode ex_jwt 1000 True (JStr ''old'') ex_new_socket ex_state)
       = Some (LoginFailed ''Login code expired'')
   \<and> fst (loginByOidcCode ex_jwt 1001 True (JStr ''old'') ex_new_socket
        (snd (snd (loginByOidcCode ex_jwt 1000 True (JStr ''old'') ex_new_socket ex_state))))
       = Some (LoginFailed ''Invalid or expired login code'')"
proof -
  have known: "''used'' \<in> set (map lc_code (login_codes ex_state))"
    "''none'' \<notin> set (map lc_code (login_codes ex_state))"
    by (simp_all add: ex_state_def ex_codes_def)
  have expired: "lc_expires_at
      \<lparr>lc_id = 3, lc_code = ''old'', lc_user_id = 2, lc_expires_at = 100, lc_used = False\<rparr>
        < (1000 :: int)"
    by simp
  have used: "''used'' \<noteq> [] \<and> ''none'' \<noteq> [] \<and>
      ''used'' \<in> set (map lc_code (login_codes ex_state)) \<and> all_used ''used'' ex_state \<and>
      ''none'' \<notin> set (map lc_code (login_codes ex_state))"
    using known ex_used_all_used by simp
  have old: "''old'' \<noteq> [] \<and>
      findOne_login_code_unused (login_codes ex_state) ''old''
        = Some \<lparr>lc_id = 3, lc_code = ''old'', lc_user_id = 2, lc_expires_at = 100,
                 lc_used = False\<rparr> \<and>
      lc_expires_at \<lparr>lc_id = 3, lc_code = ''old'', lc_user_id = 2, lc_expires_at = 100,
                 lc_used = False\<rparr> < (1000 :: int)"
    using ex_find_old expired by simp
  note th1 = used_code_like_unknown [of "''used''" "''none''" ex_state ex_jwt 1000
      ex_new_socket, THEN conjunct1, rule_format, OF used]
  note th2 = used_code_like_unknown [of "''old''" "''none''" ex_state ex_jwt 1000
      ex_new_socket _ ex_jwt 1001 ex_new_socket, THEN conjunct2, rule_format, OF old]
  have a1: "loginByOidcCode ex_jwt 1000 True (JStr ''used'') ex_new_socket ex_state
        = loginByOidcCode ex_jwt 1000 True (JStr ''none'') ex_new_socket ex_state"
    by (rule th1 [THEN conjunct1])
  have a2: "fst (loginByOidcCode ex_jwt 1000 True (JStr ''used'') ex_new_socket ex_state)
       = Some (LoginFailed ''Invalid or expired login code'')"
    by (subst th1 [THEN conjunct2]) simp
  note a = a1 a2
  from th2 ex_codes_wf
  have b: "fst (loginByOidcCode ex_jwt 1000 True (JStr ''old'') ex_new_socket ex_state)
       = Some (LoginFailed ''Login code expired'')"
    "fst (loginByOidcCode ex_jwt 1001 True (JStr ''old'') ex_new_socket
        (snd (snd (loginByOidcCode ex_jwt 1000 True (JStr ''old'') ex_new_socket ex_state))))
       = Some (LoginFailed ''Invalid or expired login code'')"
    by simp_all
  from a b show ?thesis by blast
qed

text \<open>C5 as stated fails: at time 1000 the expired code \<^verbatim>\<open>old\<close> and the unknown code
  \<^verbatim>\<open>none\<close> get different responses.\<close>

theorem expired_code_counterexample:
  "fst (loginByOidcCode ex_jwt 1000 True (JStr ''old'') ex_new_socket ex_state)
     \<noteq> fst (loginByOidcCode ex_jwt 1000 True (JStr ''none'') ex_new_socket ex_state)"
  by (simp add: loginByOidcCode_def findOne_login_code_unused_def ex_state_def ex_codes_def)


section \<open>OIDC settings over the channel\<close>

lemma js_or_idem: "js_or (js_or a b) b = js_or a b"
  by (simp add: js_or_def)

lemma admin_checks:
  "admin_session sock \<Longrightarrow> checkLogin sock = Inr () \<and> checkAdmin sock = Inr ()"
  by (simp add: admin_session_def checkLogin_def checkAdmin_def socketIsAdmin_def)

text \<open>What a successful save has stored, key by key, and what it has left alone.\<close>

lemma saveOidcSettings_try_Inr:
  assumes "saveOidcSettings_try sock (Some d) s = Inr s'"
  shows "settings s' ''oidcEntraEnabled'' = JBool (oidcEntraEnabled d = JBool True)"
    and "settings s' ''oidcEntraTenantId'' = js_or (oidcEntraTenantId d) (JStr [])"
    and "settings s' ''oidcEntraClientId'' = js_or (oidcEntraClientId d) (JStr [])"
    and "settings s' ''oidcEntraClientSecret'' =
           (if truthy (oidcEntraClientSecret d) \<and> oidcEntraClientSecret d \<noteq> JStr ''********''
            then oidcEntraClientSecret d else settings s ''oidcEntraClientSecret'')"
    and "settings s' ''oidcEntraAllowedGroups'' = saved_groups (oidcEntraAllowedGroups d)"
    and "settings s' ''oidcEntraDefaultRole'' = js_or (oidcEntraDefaultRole d) (JStr ''viewer'')"
    and "settings s' ''oidcEntraAutoCreateUsers''
           = JBool (oidcEntraAutoCreateUsers d \<noteq> JBool False)"
    and "users s' = users s" and "login_codes s' = login_codes s"
    and "authSessions s' = authSessions s"
proof -
  from assms have
    s': "s' = s\<lparr>settings :=
           (let st1 = Settings_set (settings s) ''oidcEntraEnabled''
                         (JBool (oidcEntraEnabled d = JBool True));
                 st2 = Settings_set st1 ''oidcEntraTenantId''
                         (js_or (oidcEntraTenantId d) (JStr ''''));
                 st3 = Settings_set st2 ''oidcEntraClientId''
                         (js_or (oidcEntraClientId d) (JStr ''''));
                 st4 = (if truthy (oidcEntraClientSecret d) \<and>
                           oidcEntraClientSecret d \<noteq> JStr ''********''
                        then Settings_set st3 ''oidcEntraClientSecret'' (oidcEntraClientSecret d)
                        else st3);
                 st5 = Settings_set st4 ''oidcEntraAllowedGroups''
                         (saved_groups (oidcEntraAllowedGroups d));
                 st6 = Settings_set st5 ''oidcEntraDefaultRole''
                         (js_or (oidcEntraDefaultRole d) (JStr ''viewer''));
                 st7 = Settings_set st6 ''oidcEntraAutoCreateUsers''
                         (JBool (oidcEntraAutoCreateUsers d \<noteq> JBool False))
             in st7)\<rparr>"
    by (auto simp: saveOidcSettings_try_def saved_groups_def Let_def
          split: sum.splits if_splits)
  show "settings s' ''oidcEntraEnabled'' = JBool (oidcEntraEnabled d = JBool True)"
    and "settings s' ''oidcEntraTenantId'' = js_or (oidcEntraTenantId d) (JStr [])"
    and "settings s' ''oidcEntraClientId'' = js_or (oidcEntraClientId d) (JStr [])"
    and "settings s' ''oidcEntraClientSecret'' =
           (if truthy (oidcEntraClientSecret d) \<and> oidcEntraClientSecret d \<noteq> JStr ''********''
            then oidcEntraClientSecret d else settings s ''oidcEntraClientSecret'')"
    and "settings s' ''oidcEntraAllowedGroups'' = saved_groups (oidcEntraAllowedGroups d)"
    and "settings s' ''oidcEntraDefaultRole'' = js_or (oidcEntraDefaultRole d) (JStr ''viewer'')"
    and "settings s' ''oidcEntraAutoCreateUsers''
           = JBool (oidcEntraAutoCreateUsers d \<noteq> JBool False)"
    and "users s' = users s" and "login_codes s' = login_codes s"
    and "authSessions s' = authSessions s"
    unfolding s' by (simp_all add: Settings_set_def Let_def)
qed

text \<open>The round trip for any payload: the read returns each value as the save
  normalised it.\<close>

lemma save_then_get:
  assumes admin: "admin_session sock"
    and saved: "saveOidcSettings_try sock (Some d) s = Inr s'"
  shows "getOidcSettings_try sock s' = Inr
     \<lparr>oidcEntraEnabled = JBool (oidcEntraEnabled d = JBool True),
      oidcEntraTenantId = js_or (oidcEntraTenantId d) (JStr []),
      oidcEntraClientId = js_or (oidcEntraClientId d) (JStr []),
      oidcEntraClientSecret =
        (if truthy (if truthy (oidcEntraClientSecret d) \<and>
                       oidcEntraClientSecret d \<noteq> JStr ''********''
                    then oidcEntraClientSecret d else settings s ''oidcEntraClientSecret'')
         then JStr ''********'' else JStr []),
      oidcEntraAllowedGroups = saved_groups (oidcEntraAllowedGroups d),
      oidcEntraDefaultRole = js_or (oidcEntraDefaultRole d) (JStr ''viewer''),
      oidcEntraAutoCreateUsers = JBool (oidcEntraAutoCreateUsers d \<noteq> JBool False)\<rparr>"
  using admin_checks [OF admin] saveOidcSettings_try_Inr [OF saved]
  by (simp add: getOidcSettings_try_def Settings_get_def js_or_idem saved_groups_def)

text \<open>On a typed payload the normalisation changes nothing.\<close>

lemma is_JStr_dest: "is_JStr v \<Longrightarrow> \<exists>x. v = JStr x"
  by (cases v) simp_all

lemma is_JArr_dest: "is_JArr v \<Longrightarrow> \<exists>x. v = JArr x"
  by (cases v) simp_all

lemma is_JBool_dest: "is_JBool v \<Longrightarrow> \<exists>x. v = JBool x"
  by (cases v) simp_all

lemma typed_payload_fixpoint:
  assumes "typed_payload d"
  shows "js_or (oidcEntraTenantId d) (JStr []) = oidcEntraTenantId d"
    and "js_or (oidcEntraClientId d) (JStr []) = oidcEntraClientId d"
    and "saved_groups (oidcEntraAllowedGroups d) = oidcEntraAllowedGroups d"
    and "js_or (oidcEntraDefaultRole d) (JStr ''viewer'') = oidcEntraDefaultRole d"
    and "JBool (oidcEntraAutoCreateUsers d \<noteq> JBool False) = oidcEntraAutoCreateUsers d"
proof -
  from assms obtain t where t: "oidcEntraTenantId d = JStr t"
    unfolding typed_payload_def using is_JStr_dest by blast
  from assms obtain c where c: "oidcEntraClientId d = JStr c"
    unfolding typed_payload_def using is_JStr_dest by blast
  from assms obtain gs where gs: "oidcEntraAllowedGroups d = JArr gs"
    unfolding typed_payload_def using is_JArr_dest by blast
  from assms obtain b where b: "oidcEntraAutoCreateUsers d = JBool b"
    unfolding typed_payload_def using is_JBool_dest by blast
  from assms have r: "truthy (oidcEntraDefaultRole d)"
    by (simp add: typed_payload_def)
  show "js_or (oidcEntraTenantId d) (JStr []) = oidcEntraTenantId d"
    by (simp add: t js_or_def)
  show "js_or (oidcEntraClientId d) (JStr []) = oidcEntraClientId d"
    by (simp add: c js_or_def)
  show "saved_groups (oidcEntraAllowedGroups d) = oidcEntraAllowedGroups d"
    by (simp add: gs js_or_def saved_groups_def)
  show "js_or (oidcEntraDefaultRole d) (JStr ''viewer'') = oidcEntraDefaultRole d"
    using r by (simp add: js_or_def)
  show "JBool (oidcEntraAutoCreateUsers d \<noteq> JBool False) = oidcEntraAutoCreateUsers d"
    by (simp add: b)
qed

text \<open>The pieces of \<^verbatim>\<open>split\<close> hold no separator and give the string back when joined;
  \<open>strip_start\<close> removes a prefix and leaves no sequence of the table at the start.\<close>

lemma split_on_nonempty: "split_on c s \<noteq> []"
  by (induction s) (auto split: list.splits)

lemma split_on_join: "concat (map (\<lambda>w. c # w) (split_on c s)) = c # s"
  by (induction s) (auto split: list.splits simp: split_on_nonempty)

lemma split_on_free: "w \<in> set (split_on c s) \<Longrightarrow> c \<notin> set w"
  by (induction s arbitrary: w) (auto split: list.splits if_splits)

lemma strip_start_suffix: "\<exists>pre. s = pre @ strip_start seqs s"
proof (induction seqs s rule: strip_start.induct)
  case (1 seqs s)
  show ?case
  proof (cases "find (\<lambda>w. w \<noteq> [] \<and> take (length w) s = w) seqs")
    case None
    then show ?thesis by (subst strip_start.simps) simp
  next
    case (Some w)
    from "1" [OF Some] obtain pre where
      "drop (length w) s = pre @ strip_start seqs (drop (length w) s)"
      by blast
    then have "s = (take (length w) s @ pre) @ strip_start seqs (drop (length w) s)"
      by (metis append_assoc append_take_drop_id)
    moreover have "strip_start seqs s = strip_start seqs (drop (length w) s)"
      by (subst strip_start.simps) (simp add: Some)
    ultimately show ?thesis by metis
  qed
qed

lemma strip_start_done:
  "find (\<lambda>w. w \<noteq> [] \<and> take (length w) (strip_start seqs s) = w) seqs = None"
proof (induction seqs s rule: strip_start.induct)
  case (1 seqs s)
  show ?case
  proof (cases "find (\<lambda>w. w \<noteq> [] \<and> take (length w) s = w) seqs")
    case None
    moreover from None have "strip_start seqs s = s"
      by (subst strip_start.simps) simp
    ultimately show ?thesis by simp
  next
    case (Some w)
    have "strip_start seqs s = strip_start seqs (drop (length w) s)"
      by (subst strip_start.simps) (simp add: Some)
    with "1" [OF Some] show ?thesis by simp
  qed
qed

text \<open>Blanks, a no-break space and empty parts are dropped from a string of groups.\<close>

lemma ex_parse_groups:
  "parse_groups ('' G1 ,, G2'' @ [CHR 0xC2, CHR 0xA0] @ '','') = JArr [JStr ''G1'', JStr ''G2'']"
  "parse_groups [] = JArr []"
  by (simp_all add: parse_groups_def trim_def white_space_def strip_start.simps)

lemma saved_groups_eq:
  "saved_groups g =
     (case g of
        JStr str \<Rightarrow> JArr (map JStr (filter (\<lambda>g. g \<noteq> []) (map trim (split_on CHR '','' str))))
      | v \<Rightarrow> js_or v (JArr []))"
  by (cases g) (simp_all add: saved_groups_def parse_groups_def js_or_def)

text \<open>
  C6, as amended. On an admin's socket, after a successful \<open>saveOidcSettings\<close> of
  any payload the read \<open>getOidcSettings\<close> succeeds and returns the five fields as
  the save has normalised and stored them: the tenant id and the client id of the
  payload, or the empty string when they are missing or falsy; for allowed groups given
  as a string the list of its comma-separated parts, trimmed, without the empty ones,
  and otherwise the payload's value, or the empty list when it is missing or falsy; the
  default role of the payload, or \<^verbatim>\<open>viewer\<close> when it is missing or empty; and for the
  provisioning flag \<^verbatim>\<open>true\<close> unless the payload's is \<^verbatim>\<open>false\<close>. When the payload
  holds string ids, a list of groups, a non-empty string as the role and a boolean flag,
  these are the values of the payload. In any state where a non-empty string is stored
  as the client secret the read returns the sentinel \<^verbatim>\<open>********\<close> in its place. And
  a save whose client secret is the sentinel leaves the stored secret as it was.
\<close>

theorem settings_round_trip:
  assumes admin: "admin_session sock"
    and saved: "ok (fst (saveOidcSettings sock (Some d) s))"
  shows "(\<exists>v. getOidcSettings_handler sock (snd (saveOidcSettings sock (Some d) s)) = Inr v \<and>
            oidcEntraTenantId v = js_or (oidcEntraTenantId d) (JStr []) \<and>
            oidcEntraClientId v = js_or (oidcEntraClientId d) (JStr []) \<and>
            oidcEntraAllowedGroups v =
              (case oidcEntraAllowedGroups d of
                 JStr str \<Rightarrow>
                   JArr (map JStr (filter (\<lambda>g. g \<noteq> []) (map trim (split_on CHR '','' str))))
               | g \<Rightarrow> js_or g (JArr [])) \<and>
            oidcEntraDefaultRole v = js_or (oidcEntraDefaultRole d) (JStr ''viewer'') \<and>
            oidcEntraAutoCreateUsers v = JBool (oidcEntraAutoCreateUsers d \<noteq> JBool False) \<and>
            oidcEntraTenantId v
              = Settings_get (settings (snd (saveOidcSettings sock (Some d) s))) ''oidcEntraTenantId'' \<and>
            oidcEntraClientId v
              = Settings_get (settings (snd (saveOidcSettings sock (Some d) s))) ''oidcEntraClientId'' \<and>
            oidcEntraAllowedGroups v
              = Settings_get (settings (snd (saveOidcSettings sock (Some d) s)))
                  ''oidcEntraAllowedGroups'' \<and>
            oidcEntraDefaultRole v
              = Settings_get (settings (snd (saveOidcSettings sock (Some d) s)))
                  ''oidcEntraDefaultRole'' \<and>
            oidcEntraAutoCreateUsers v
              = Settings_get (settings (snd (saveOidcSettings sock (Some d) s)))
                  ''oidcEntraAutoCreateUsers'' \<and>
            (typed_payload d \<longrightarrow>
               oidcEntraTenantId v = oidcEntraTenantId d \<and>
               oidcEntraClientId v = oidcEntraClientId d \<and>
               oidcEntraAllowedGroups v = oidcEntraAllowedGroups d \<and>
               oidcEntraDefaultRole v = oidcEntraDefaultRole d \<and>
               oidcEntraAutoCreateUsers v = oidcEntraAutoCreateUsers d))
     \<and> (\<forall>s0 x. x \<noteq> [] \<and> Settings_get (settings s0) ''oidcEntraClientSecret'' = JStr x \<longrightarrow>
           (\<exists>v. getOidcSettings_handler sock s0 = Inr v \<and>
                oidcEntraClientSecret v = JStr ''********''))
     \<and> (oidcEntraClientSecret d = JStr ''********'' \<longrightarrow>
           Settings_get (settings (snd (saveOidcSettings sock (Some d) s)))
               ''oidcEntraClientSecret''
             = Settings_get (settings s) ''oidcEntraClientSecret'')"
proof -
  from saved obtain s' where tr: "saveOidcSettings_try sock (Some d) s = Inr s'"
    by (cases "saveOidcSettings_try sock (Some d) s") (auto simp: saveOidcSettings_def)
  then have s': "snd (saveOidcSettings sock (Some d) s) = s'"
    by (simp add: saveOidcSettings_def)
  note stored = saveOidcSettings_try_Inr [OF tr]
  obtain v where v: "getOidcSettings_handler sock s' = Inr v"
    and fields: "oidcEntraTenantId v = js_or (oidcEntraTenantId d) (JStr [])"
      "oidcEntraClientId v = js_or (oidcEntraClientId d) (JStr [])"
      "oidcEntraAllowedGroups v = saved_groups (oidcEntraAllowedGroups d)"
      "oidcEntraDefaultRole v = js_or (oidcEntraDefaultRole d) (JStr ''viewer'')"
      "oidcEntraAutoCreateUsers v = JBool (oidcEntraAutoCreateUsers d \<noteq> JBool False)"
    using save_then_get [OF admin tr] by (simp add: getOidcSettings_handler_def)
  have groups: "oidcEntraAllowedGroups v =
              (case oidcEntraAllowedGroups d of
                 JStr str \<Rightarrow>
                   JArr (map JStr (filter (\<lambda>g. g \<noteq> []) (map trim (split_on CHR '','' str))))
               | g \<Rightarrow> js_or g (JArr []))"
    by (simp only: fields(3) saved_groups_eq)
  have as_stored:
    "oidcEntraTenantId v = Settings_get (settings s') ''oidcEntraTenantId''"
    "oidcEntraClientId v = Settings_get (settings s') ''oidcEntraClientId''"
    "oidcEntraAllowedGroups v = Settings_get (settings s') ''oidcEntraAllowedGroups''"
    "oidcEntraDefaultRole v = Settings_get (settings s') ''oidcEntraDefaultRole''"
    "oidcEntraAutoCreateUsers v = Settings_get (settings s') ''oidcEntraAutoCreateUsers''"
    by (simp_all add: fields stored Settings_get_def)
  have as_sent: "oidcEntraTenantId v = oidcEntraTenantId d \<and>
               oidcEntraClientId v = oidcEntraClientId d \<and>
               oidcEntraAllowedGroups v = oidcEntraAllowedGroups d \<and>
               oidcEntraDefaultRole v = oidcEntraDefaultRole d \<and>
               oidcEntraAutoCreateUsers v = oidcEntraAutoCreateUsers d"
    if "typed_payload d"
    using typed_payload_fixpoint [OF that] by (simp add: fields)
  have mask: "\<exists>v. getOidcSettings_handler sock s0 = Inr v \<and>
                oidcEntraClientSecret v = JStr ''********''"
    if "x \<noteq> [] \<and> Settings_get (settings s0) ''oidcEntraClientSecret'' = JStr x" for s0 x
    using admin_checks [OF admin] that
    by (simp add: getOidcSettings_handler_def getOidcSettings_try_def)
  have keep: "Settings_get (settings s') ''oidcEntraClientSecret''
             = Settings_get (settings s) ''oidcEntraClientSecret''"
    if "oidcEntraClientSecret d = JStr ''********''"
    using stored(4) that by (simp add: Settings_get_def)
  from v fields(1,2,4,5) groups as_stored as_sent mask keep show ?thesis
    unfolding s' by blast
qed

lemma ex_admin_session: "admin_session ex_admin_socket"
  by (simp add: admin_session_def ex_admin_socket_def)

lemma ex_save_try:
  "saveOidcSettings_try ex_admin_socket (Some ex_payload) ex_state = Inr ex_configured"
  by (simp add: ex_configured_def saveOidcSettings_def saveOidcSettings_try_def
      admin_checks [OF ex_admin_session] ex_payload_def ex_state_def Settings_get_def
      empty_settings_def Let_def)

lemma ex_configured_secret: "settings ex_configured ''oidcEntraClientSecret'' = JStr ''s1''"
  using saveOidcSettings_try_Inr(4) [OF ex_save_try] by (simp add: ex_payload_def)

lemma ex_resave_try:
  "\<exists>s'. saveOidcSettings_try ex_admin_socket
          (Some (ex_payload\<lparr>oidcEntraClientSecret := JStr ''********''\<rparr>)) ex_configured = Inr s'"
  by (simp add: saveOidcSettings_try_def admin_checks [OF ex_admin_session] ex_payload_def
      Let_def)

lemma ex_string_saved:
  "ok (fst (saveOidcSettings ex_admin_socket (Some ex_string_payload) ex_state))"
  by (simp add: saveOidcSettings_def saveOidcSettings_try_def
      admin_checks [OF ex_admin_session] ex_string_payload_def ex_payload_def Let_def)

lemma ex_bare_saved:
  "ok (fst (saveOidcSettings ex_admin_socket (Some ex_bare_payload) ex_state))"
  by (simp add: saveOidcSettings_def saveOidcSettings_try_def
      admin_checks [OF ex_admin_session] ex_bare_payload_def Let_def)

theorem settings_round_trip_witness:
  "admin_session ex_admin_socket
   \<and> ok (fst (saveOidcSettings ex_admin_socket (Some ex_payload) ex_state))
   \<and> typed_payload ex_payload
   \<and> (\<exists>v. getOidcSettings_handler ex_admin_socket
             (snd (saveOidcSettings ex_admin_socket (Some ex_payload) ex_state)) = Inr v \<and>
           oidcEntraTenantId v = JStr ''t1'' \<and>
           oidcEntraClientId v = JStr ''c1'' \<and>
           oidcEntraAllowedGroups v = JArr [JStr ''G1''] \<and>
           oidcEntraDefaultRole v = JStr ''viewer'' \<and>
           oidcEntraAutoCreateUsers v = JBool False)
   \<and> (\<exists>v. getOidcSettings_handler ex_admin_socket
             (snd (saveOidcSettings ex_admin_socket (Some ex_string_payload) ex_state)) = Inr v \<and>
           oidcEntraAllowedGroups v = JArr [JStr ''G1'', JStr ''G2''])
   \<and> (\<exists>v. getOidcSettings_handler ex_admin_socket
             (snd (saveOidcSettings ex_admin_socket (Some ex_bare_payload) ex_state)) = Inr v \<and>
           oidcEntraTenantId v = JStr [] \<and>
           oidcEntraClientId v = JStr [] \<and>
           oidcEntraAllowedGroups v = JArr [] \<and>
           oidcEntraDefaultRole v = JStr ''viewer'' \<and>
           oidcEntraAutoCreateUsers v = JBool True)
   \<and> (\<exists>v. getOidcSettings_handler ex_admin_socket ex_configured = Inr v \<and>
           oidcEntraClientSecret v = JStr ''********'')
   \<and> Settings_get (settings (snd (saveOidcSettings ex_admin_socket
          (Some (ex_payload\<lparr>oidcEntraClientSecret := JStr ''********''\<rparr>)) ex_configured)))
        ''oidcEntraClientSecret'' = JStr ''s1''"
proof -
  have saved: "ok (fst (saveOidcSettings ex_admin_socket (Some ex_payload) ex_state))"
    by (simp add: saveOidcSettings_def ex_save_try)
  have typed: "typed_payload ex_payload"
    by (simp add: typed_payload_def ex_payload_def)
  have resaved: "ok (fst (saveOidcSettings ex_admin_socket
          (Some (ex_payload\<lparr>oidcEntraClientSecret := JStr ''********''\<rparr>)) ex_configured))"
    using ex_resave_try by (auto simp: saveOidcSettings_def)
  have stored: "''s1'' \<noteq> [] \<and>
      Settings_get (settings ex_configured) ''oidcEntraClientSecret'' = JStr ''s1''"
    by (simp add: Settings_get_def ex_configured_secret)
  note th1 = settings_round_trip [OF ex_admin_session saved]
  note th2 = settings_round_trip [OF ex_admin_session resaved]
  note th3 = settings_round_trip [OF ex_admin_session ex_string_saved]
  note th4 = settings_round_trip [OF ex_admin_session ex_bare_saved]
  from th1 [THEN conjunct1] obtain v where
    v: "getOidcSettings_handler ex_admin_socket
             (snd (saveOidcSettings ex_admin_socket (Some ex_payload) ex_state)) = Inr v"
    and sent: "typed_payload ex_payload \<longrightarrow>
               oidcEntraTenantId v = oidcEntraTenantId ex_payload \<and>
               oidcEntraClientId v = oidcEntraClientId ex_payload \<and>
               oidcEntraAllowedGroups v = oidcEntraAllowedGroups ex_payload \<and>
               oidcEntraDefaultRole v = oidcEntraDefaultRole ex_payload \<and>
               oidcEntraAutoCreateUsers v = oidcEntraAutoCreateUsers ex_payload"
    by blast
  from sent typed have "oidcEntraTenantId v = JStr ''t1'' \<and>
           oidcEntraClientId v = JStr ''c1'' \<and>
           oidcEntraAllowedGroups v = JArr [JStr ''G1''] \<and>
           oidcEntraDefaultRole v = JStr ''viewer'' \<and>
           oidcEntraAutoCreateUsers v = JBool False"
    by (simp add: ex_payload_def)
  with v
  have a: "\<exists>v. getOidcSettings_handler ex_admin_socket
             (snd (saveOidcSettings ex_admin_socket (Some ex_payload) ex_state)) = Inr v \<and>
           oidcEntraTenantId v = JStr ''t1'' \<and>
           oidcEntraClientId v = JStr ''c1'' \<and>
           oidcEntraAllowedGroups v = JArr [JStr ''G1''] \<and>
           oidcEntraDefaultRole v = JStr ''viewer'' \<and>
           oidcEntraAutoCreateUsers v = JBool False"
    by blast
  from th3 [THEN conjunct1] obtain w where
    w: "getOidcSettings_handler ex_admin_socket
             (snd (saveOidcSettings ex_admin_socket (Some ex_string_payload) ex_state)) = Inr w"
    and parsed: "oidcEntraAllowedGroups w =
              (case oidcEntraAllowedGroups ex_string_payload of
                 JStr str \<Rightarrow>
                   JArr (map JStr (filter (\<lambda>g. g \<noteq> []) (map trim (split_on CHR '','' str))))
               | g \<Rightarrow> js_or g (JArr []))"
    by blast
  from parsed ex_parse_groups(1) have "oidcEntraAllowedGroups w = JArr [JStr ''G1'', JStr ''G2'']"
    by (simp add: ex_string_payload_def parse_groups_def)
  with w
  have b: "\<exists>v. getOidcSettings_handler ex_admin_socket
             (snd (saveOidcSettings ex_admin_socket (Some ex_string_payload) ex_state)) = Inr v \<and>
           oidcEntraAllowedGroups v = JArr [JStr ''G1'', JStr ''G2'']"
    by blast
  from th4 [THEN conjunct1] obtain u where
    u: "getOidcSettings_handler ex_admin_socket
             (snd (saveOidcSettings ex_admin_socket (Some ex_bare_payload) ex_state)) = Inr u"
    and normal: "oidcEntraTenantId u = js_or (oidcEntraTenantId ex_bare_payload) (JStr [])"
      "oidcEntraClientId u = js_or (oidcEntraClientId ex_bare_payload) (JStr [])"
      "oidcEntraAllowedGroups u =
              (case oidcEntraAllowedGroups ex_bare_payload of
                 JStr str \<Rightarrow>
                   JArr (map JStr (filter (\<lambda>g. g \<noteq> []) (map trim (split_on CHR '','' str))))
               | g \<Rightarrow> js_or g (JArr []))"
      "oidcEntraDefaultRole u = js_or (oidcEntraDefaultRole ex_bare_payload) (JStr ''viewer'')"
      "oidcEntraAutoCreateUsers u = JBool (oidcEntraAutoCreateUsers ex_bare_payload \<noteq> JBool False)"
    by blast
  from normal have "oidcEntraTenantId u = JStr [] \<and>
           oidcEntraClientId u = JStr [] \<and>
           oidcEntraAllowedGroups u = JArr [] \<and>
           oidcEntraDefaultRole u = JStr ''viewer'' \<and>
           oidcEntraAutoCreateUsers u = JBool True"
    by (simp add: ex_bare_payload_def js_or_def)
  with u
  have c: "\<exists>v. getOidcSettings_handler ex_admin_socket
             (snd (saveOidcSettings ex_admin_socket (Some ex_bare_payload) ex_state)) = Inr v \<and>
           oidcEntraTenantId v = JStr [] \<and>
           oidcEntraClientId v = JStr [] \<and>
           oidcEntraAllowedGroups v = JArr [] \<and>
           oidcEntraDefaultRole v = JStr ''viewer'' \<and>
           oidcEntraAutoCreateUsers v = JBool True"
    by blast
  from th1 [THEN conjunct2, THEN conjunct1, rule_format, OF stored]
  have e: "\<exists>v. getOidcSettings_handler ex_admin_socket ex_configured = Inr v \<and>
           oidcEntraClientSecret v = JStr ''********''" .
  from th2 [THEN conjunct2, THEN conjunct2]
  have f: "Settings_get (settings (snd (saveOidcSettings ex_admin_socket
          (Some (ex_payload\<lparr>oidcEntraClientSecret := JStr ''********''\<rparr>)) ex_configured)))
        ''oidcEntraClientSecret'' = JStr ''s1''"
    by (simp add: Settings_get_def ex_configured_secret)
  from ex_admin_session saved typed a b c e f show ?thesis by blast
qed

text \<open>
  C6 as stated fails: the admin saves a payload whose allowed groups are the string
  \<^verbatim>\<open>" G1 ,, G2<U+00A0>,"\<close>; the save succeeds, and the read returns the list of
  \<^verbatim>\<open>G1\<close> and \<^verbatim>\<open>G2\<close>, not the value saved.
\<close>

theorem string_groups_counterexample:
  "admin_session ex_admin_socket
   \<and> ok (fst (saveOidcSettings ex_admin_socket (Some ex_string_payload) ex_state))
   \<and> (\<exists>v. getOidcSettings_handler ex_admin_socket
             (snd (saveOidcSettings ex_admin_socket (Some ex_string_payload) ex_state)) = Inr v \<and>
           oidcEntraAllowedGroups v = JArr [JStr ''G1'', JStr ''G2''] \<and>
           oidcEntraAllowedGroups v \<noteq> oidcEntraAllowedGroups ex_string_payload)"
proof -
  obtain s' where tr: "saveOidcSettings_try ex_admin_socket (Some ex_string_payload) ex_state
      = Inr s'"
    using ex_string_saved
    by (cases "saveOidcSettings_try ex_admin_socket (Some ex_string_payload) ex_state")
       (auto simp: saveOidcSettings_def)
  then have s': "snd (saveOidcSettings ex_admin_socket (Some ex_string_payload) ex_state) = s'"
    by (simp add: saveOidcSettings_def)
  from save_then_get [OF ex_admin_session tr] obtain v where
    v: "getOidcSettings_handler ex_admin_socket s' = Inr v"
    and groups: "oidcEntraAllowedGroups v
      = saved_groups (oidcEntraAllowedGroups ex_string_payload)"
    by (simp add: getOidcSettings_handler_def)
  have "saved_groups (oidcEntraAllowedGroups ex_string_payload)
      = JArr [JStr ''G1'', JStr ''G2'']"
    using ex_parse_groups(1)
    by (simp add: saved_groups_def ex_string_payload_def js_or_def)
  with groups have read: "oidcEntraAllowedGroups v = JArr [JStr ''G1'', JStr ''G2'']"
    by simp
  then have differ: "oidcEntraAllowedGroups v \<noteq> oidcEntraAllowedGroups ex_string_payload"
    by (simp add: ex_string_payload_def)
  from ex_admin_session ex_string_saved v read differ show ?thesis unfolding s' by blast
qed

text \<open>
  C9. The router's read and the channel's read of the settings agree on every store:
  both report \<^verbatim>\<open>enabled\<close> exactly when the stored value is \<^verbatim>\<open>true\<close>, and they give
  the same allowed groups, default role and provisioning flag. Where a key was never
  written, \<^verbatim>\<open>enabled\<close> is false, the allowed groups are the empty list, the default
  role is \<^verbatim>\<open>viewer\<close> and automatic provisioning is on.
\<close>

theorem unconfigured_defaults:
  "(enabled (getOidcSettings store) \<longleftrightarrow> Settings_get store ''oidcEntraEnabled'' = JBool True)
   \<and> (admin_session sock \<longrightarrow>
        (\<exists>v. getOidcSettings_handler sock s = Inr v \<and>
             oidcEntraEnabled v = JBool (enabled (getOidcSettings (settings s))) \<and>
             oidcEntraAllowedGroups v = allowedGroups (getOidcSettings (settings s)) \<and>
             oidcEntraDefaultRole v = defaultRole (getOidcSettings (settings s)) \<and>
             oidcEntraAutoCreateUsers v = JBool (autoCreateUsers (getOidcSettings (settings s)))))
   \<and> (Settings_get store ''oidcEntraEnabled'' = JUndefined \<longrightarrow>
        \<not> enabled (getOidcSettings store))
   \<and> (Settings_get store ''oidcEntraAllowedGroups'' = JUndefined \<longrightarrow>
        allowedGroups (getOidcSettings store) = JArr [])
   \<and> (Settings_get store ''oidcEntraDefaultRole'' = JUndefined \<longrightarrow>
        defaultRole (getOidcSettings store) = JStr ''viewer'')
   \<and> (Settings_get store ''oidcEntraAutoCreateUsers'' = JUndefined \<longrightarrow>
        autoCreateUsers (getOidcSettings store))"
proof -
  have "\<exists>v. getOidcSettings_handler sock s = Inr v \<and>
             oidcEntraEnabled v = JBool (enabled (getOidcSettings (settings s))) \<and>
             oidcEntraAllowedGroups v = allowedGroups (getOidcSettings (settings s)) \<and>
             oidcEntraDefaultRole v = defaultRole (getOidcSettings (settings s)) \<and>
             oidcEntraAutoCreateUsers v = JBool (autoCreateUsers (getOidcSettings (settings s)))"
    if "admin_session sock"
    using admin_checks [OF that]
    by (simp add: getOidcSettings_handler_def getOidcSettings_try_def getOidcSettings_def)
  then show ?thesis
    by (simp add: getOidcSettings_def js_or_def)
qed

theorem unconfigured_defaults_witness:
  "\<not> enabled (getOidcSettings empty_settings)
   \<and> allowedGroups (getOidcSettings empty_settings) = JArr []
   \<and> defaultRole (getOidcSettings empty_settings) = JStr ''viewer''
   \<and> autoCreateUsers (getOidcSettings empty_settings)
   \<and> (\<exists>v. getOidcSettings_handler ex_admin_socket ex_state = Inr v \<and>
           oidcEntraEnabled v = JBool False \<and>
           oidcEntraAllowedGroups v = JArr [] \<and>
           oidcEntraDefaultRole v = JStr ''viewer'' \<and>
           oidcEntraAutoCreateUsers v = JBool True)"
proof -
  have unset: "Settings_get empty_settings k = JUndefined" for k
    by (simp add: Settings_get_def empty_settings_def)
  note th = unconfigured_defaults [of empty_settings ex_admin_socket ex_state]
  from th unset have a: "\<not> enabled (getOidcSettings empty_settings)"
    "allowedGroups (getOidcSettings empty_settings) = JArr []"
    "defaultRole (getOidcSettings empty_settings) = JStr ''viewer''"
    "autoCreateUsers (getOidcSettings empty_settings)"
    by blast+
  have "settings ex_state = empty_settings" by (simp add: ex_state_def)
  with th ex_admin_session a
  have b: "\<exists>v. getOidcSettings_handler ex_admin_socket ex_state = Inr v \<and>
           oidcEntraEnabled v = JBool False \<and>
           oidcEntraAllowedGroups v = JArr [] \<and>
           oidcEntraDefaultRole v = JStr ''viewer'' \<and>
           oidcEntraAutoCreateUsers v = JBool True"
    by simp
  from a b show ?thesis by blast
qed


section \<open>The callback of the router\<close>

lemma callback_issue_code_frame:
  "authSessions (snd (callback_issue_code env user s)) = authSessions s \<and>
   settings (snd (callback_issue_code env user s)) = settings s \<and>
   users (snd (callback_issue_code env user s)) = users s"
  by (simp add: callback_issue_code_def Let_def)

lemma callback_resolve_user_frame:
  "authSessions (snd (callback_resolve_user env cfg oid email name s)) = authSessions s \<and>
   settings (snd (callback_resolve_user env cfg oid email name s)) = settings s"
  by (simp add: callback_resolve_user_def Let_def callback_issue_code_frame
      split: option.splits)

lemma callback_authorize_frame:
  "authSessions (snd (callback_authorize env cfg cl s)) = authSessions s \<and>
   settings (snd (callback_authorize env cfg cl s)) = settings s"
  by (simp add: callback_authorize_def Let_def callback_resolve_user_frame
      split: sum.splits bool.splits)

lemma callback_exchange_frame:
  "authSessions (snd (callback_exchange env q st session s)) = authSessions s \<and>
   settings (snd (callback_exchange env q st session s)) = settings s"
  by (simp add: callback_exchange_def Let_def callback_authorize_frame split: sum.splits)

lemma callback_sessions:
  "authSessions (snd (callback env q s)) =
     (if str_truthy (q_error q) then authSessions s
      else snd (consume_state (q_state q) (authSessions s)))"
  by (auto simp: callback_def Let_def consume_state_def callback_exchange_frame
      split: option.splits prod.splits)

lemma consume_state_keeps_None:
  "sessions k = None \<Longrightarrow> snd (consume_state state sessions) k = None"
  by (simp add: consume_state_def split: option.splits)

lemma callback_keeps_None:
  "authSessions s k = None \<Longrightarrow> authSessions (snd (callback env q s)) k = None"
  by (simp add: callback_sessions consume_state_keeps_None)

lemma login_keeps_None:
  "authSessions s k = None \<Longrightarrow> k \<noteq> l_state env \<Longrightarrow> authSessions (snd (login env s)) k = None"
  by (simp add: login_def Let_def)

lemma sweep_keeps_None: "sessions k = None \<Longrightarrow> sweep t sessions k = None"
  by (simp add: sweep_def)

lemma router_run_keeps_None:
  "authSessions s k = None \<Longrightarrow> k \<notin> set (drawn_states evs) \<Longrightarrow>
   authSessions (router_run evs s) k = None"
proof (induction evs arbitrary: s)
  case Nil
  then show ?case by (simp add: router_run_def)
next
  case (Cons ev evs)
  have step: "authSessions (router_step ev s) k = None"
  proof (cases ev)
    case (Login env)
    with Cons.prems show ?thesis by (simp add: login_keeps_None)
  next
    case (Callback env q)
    with Cons.prems show ?thesis by (simp add: callback_keeps_None)
  next
    case (Sweep t)
    with Cons.prems show ?thesis by (simp add: sweep_keeps_None)
  qed
  have "k \<notin> set (drawn_states evs)"
    using Cons.prems(2) by (cases ev) simp_all
  from Cons.IH [OF step this] show ?case by (simp add: router_run_def)
qed

lemma callback_unknown_state:
  "\<not> str_truthy (q_error q) \<Longrightarrow> q_state q = Some st \<Longrightarrow> authSessions s st = None \<Longrightarrow>
   callback env q s = (Oidc_error msg_invalid_session, s)"
  by (simp add: callback_def consume_state_def)

text \<open>
  C2, as amended. Let the non-empty state token \<open>st\<close> be registered, and let a
  callback present it without a provider error. Then lines 504 to 511 retrieve the
  stored session and delete the entry; and after any further logins (drawing other
  tokens), callbacks and sweeps, every callback that presents \<open>st\<close> without a provider
  error is redirected with "Invalid or expired authentication session" and changes
  nothing. A callback that carries a provider error changes nothing in any state: it
  consumes no token.
\<close>

theorem state_token_one_time:
  assumes nonempty: "st \<noteq> []"
    and registered: "authSessions s st = Some session"
    and presented: "q_state q = Some st"
    and no_error: "\<not> str_truthy (q_error q)"
  shows "consume_state (q_state q) (authSessions s) = (Some session, (authSessions s)(st := None))
    \<and> authSessions (snd (callback env q s)) = (authSessions s)(st := None)
    \<and> (\<forall>evs env' q'.
          st \<notin> set (drawn_states evs) \<and> q_state q' = Some st \<and> \<not> str_truthy (q_error q') \<longrightarrow>
          callback env' q' (router_run evs (snd (callback env q s)))
            = (Oidc_error msg_invalid_session, router_run evs (snd (callback env q s))))
    \<and> (\<forall>env' q' s'. str_truthy (q_error q') \<longrightarrow> snd (callback env' q' s') = s')"
proof -
  have consumed: "consume_state (q_state q) (authSessions s)
      = (Some session, (authSessions s)(st := None))"
    using nonempty registered presented by (simp add: consume_state_def)
  with no_error have removed: "authSessions (snd (callback env q s)) = (authSessions s)(st := None)"
    by (simp add: callback_sessions)
  then have gone: "authSessions (snd (callback env q s)) st = None" by simp
  have later: "callback env' q' (router_run evs (snd (callback env q s)))
            = (Oidc_error msg_invalid_session, router_run evs (snd (callback env q s)))"
    if "st \<notin> set (drawn_states evs) \<and> q_state q' = Some st \<and> \<not> str_truthy (q_error q')"
    for evs env' q'
    using that router_run_keeps_None [OF gone, of evs]
    by (simp add: callback_unknown_state)
  have untouched: "snd (callback env' q' s') = s'" if "str_truthy (q_error q')" for env' q' s'
    using that by (simp add: callback_def)
  from consumed removed later untouched show ?thesis by blast
qed

text \<open>
  C8, as amended. A callback without a provider error that presents the state token of
  a pending session whose \<open>expiresAt\<close> is before the current time is redirected with
  "Authentication session expired", and the session is removed; nothing else changes.
  No sweep up to the expiry time has removed such a session. At the expiry time itself,
  and before it, the callback is not rejected as expired: it goes on to the exchange
  with the session it has consumed.
\<close>

theorem expired_session_rejected:
  assumes no_error: "\<not> str_truthy (q_error q)"
    and presented: "q_state q = Some st"
    and nonempty: "st \<noteq> []"
    and registered: "authSessions s st = Some session"
  shows "(expiresAt session < cb_now env \<longrightarrow>
            callback env q s
              = (Oidc_error msg_session_expired,
                 s\<lparr>authSessions := (authSessions s)(st := None)\<rparr>))
    \<and> (\<forall>t. t \<le> expiresAt session \<longrightarrow> sweep t (authSessions s) st = Some session)
    \<and> (\<not> expiresAt session < cb_now env \<longrightarrow>
            callback env q s
              = callback_exchange env q st session
                  (s\<lparr>authSessions := (authSessions s)(st := None)\<rparr>))"
  using assms by (simp add: callback_def consume_state_def sweep_def or_default_def)

text \<open>
  C7. Let a callback reach the group check: no provider error, a registered state
  token whose session is not expired, SSO enabled, and a provider that returns claims.
  If the configured \<^verbatim>\<open>allowedGroups\<close> is a non-empty list that shares no element with
  the claimed groups, the redirect carries the not-authorized message, the user table
  and the login codes are as before, and only the consumed session has left the state.
\<close>

theorem group_denied_no_effect:
  assumes no_error: "\<not> str_truthy (q_error q)"
    and presented: "q_state q = Some st"
    and nonempty: "st \<noteq> []"
    and registered: "authSessions s st = Some session"
    and live: "\<not> expiresAt session < cb_now env"
    and on: "enabled (getOidcSettings (settings s))"
    and authenticated:
      "cb_provider env (exchange_request_of (getOidcSettings (settings s)) q st session) = Inr cl"
    and configured: "allowedGroups (getOidcSettings (settings s)) = JArr gs" "gs \<noteq> []"
    and disjoint: "set gs \<inter> JStr ` set (claimed_groups cl) = {}"
  shows "callback env q s
           = (Oidc_error msg_not_authorized, s\<lparr>authSessions := (authSessions s)(st := None)\<rparr>)
    \<and> users (snd (callback env q s)) = users s
    \<and> login_codes (snd (callback env q s)) = login_codes s"
proof -
  have check: "group_check (JArr gs) (claimed_groups cl) = Inr False"
    using configured(2) disjoint by (auto simp: group_check_def)
  have "callback env q s
           = (Oidc_error msg_not_authorized, s\<lparr>authSessions := (authSessions s)(st := None)\<rparr>)"
    using no_error presented nonempty registered live on authenticated configured(1) check
    by (simp add: callback_def consume_state_def callback_exchange_def callback_authorize_def
        or_default_def Let_def)
  then show ?thesis by simp
qed

subsection \<open>The example run\<close>

lemma ex_configured_cfg:
  "getOidcSettings (settings ex_configured)
     = \<lparr>enabled = True, tenantId = JStr ''t1'', clientId = JStr ''c1'',
        clientSecret = JStr ''s1'', allowedGroups = JArr [JStr ''G1''],
        defaultRole = JStr ''viewer'', autoCreateUsers = False\<rparr>"
  by (simp add: ex_configured_def saveOidcSettings_def saveOidcSettings_try_def
      admin_checks [OF ex_admin_session] ex_payload_def ex_state_def Settings_get_def
      Settings_set_def empty_settings_def Let_def getOidcSettings_def js_or_def)

lemma ex_configured_tables:
  "users ex_configured = [ex_alice, ex_bob, ex_carol]"
  "login_codes ex_configured = ex_codes"
  "authSessions ex_configured = Map.empty"
  by (simp_all add: ex_configured_def saveOidcSettings_def saveOidcSettings_try_def
      admin_checks [OF ex_admin_session] ex_payload_def ex_state_def Settings_get_def
      empty_settings_def Let_def)

lemma ex_logged_eq:
  "ex_logged = ex_configured\<lparr>authSessions := [''S1'' \<mapsto> ex_session]\<rparr>"
  by (simp add: ex_logged_def login_def ex_configured_cfg ex_login_env_def ex_session_def
      ex_configured_tables)

lemma ex_logged_facts:
  "authSessions ex_logged ''S1'' = Some ex_session"
  "getOidcSettings (settings ex_logged) = getOidcSettings (settings ex_configured)"
  "users ex_logged = [ex_alice, ex_bob, ex_carol]"
  "login_codes ex_logged = ex_codes"
  by (simp_all add: ex_logged_eq ex_configured_tables)

text \<open>Up to and at the expiry time 601000 the callback for \<^verbatim>\<open>S1\<close> logs Bob in.\<close>

lemma ex_callback_ok:
  "t \<le> 601000 \<Longrightarrow> fst (callback (ex_env t [''G1'']) ex_query ex_logged) = Oidc_code ''rnd''"
  by (simp add: callback_def consume_state_def ex_query_def ex_logged_facts ex_session_def
      callback_exchange_def ex_configured_cfg ex_env_def callback_authorize_def ex_claims_def
      claimed_groups_def group_check_def or_default_def str_or_def Let_def
      callback_resolve_user_def ex_alice_def ex_bob_def ex_carol_def store_user_def
      callback_issue_code_def ex_codes_def)

lemma ex_query_facts:
  "\<not> str_truthy (q_error ex_query)" "q_state ex_query = Some ''S1''" "''S1'' \<noteq> []"
  by (simp_all add: ex_query_def)

theorem state_token_one_time_witness:
  "authSessions ex_logged ''S1'' = Some ex_session
   \<and> consume_state (q_state ex_query) (authSessions ex_logged)
       = (Some ex_session, (authSessions ex_logged)(''S1'' := None))
   \<and> authSessions (snd (callback (ex_env 2000 [''G1'']) ex_query ex_logged)) ''S1'' = None
   \<and> fst (callback (ex_env 3000 [''G1'']) ex_query
        (router_run [Sweep 2500] (snd (callback (ex_env 2000 [''G1'']) ex_query ex_logged))))
       = Oidc_error msg_invalid_session"
proof -
  note th = state_token_one_time [OF ex_query_facts(3) ex_logged_facts(1) ex_query_facts(2)
      ex_query_facts(1), of "ex_env 2000 [''G1'']"]
  from th have a: "consume_state (q_state ex_query) (authSessions ex_logged)
       = (Some ex_session, (authSessions ex_logged)(''S1'' := None))"
    by blast
  from th have b: "authSessions (snd (callback (ex_env 2000 [''G1'']) ex_query ex_logged)) ''S1''
       = None"
    by simp
  have "''S1'' \<notin> set (drawn_states [Sweep 2500]) \<and> q_state ex_query = Some ''S1'' \<and>
      \<not> str_truthy (q_error ex_query)"
    by (simp add: ex_query_def)
  with th have "callback (ex_env 3000 [''G1'']) ex_query
        (router_run [Sweep 2500] (snd (callback (ex_env 2000 [''G1'']) ex_query ex_logged)))
       = (Oidc_error msg_invalid_session,
          router_run [Sweep 2500] (snd (callback (ex_env 2000 [''G1'']) ex_query ex_logged)))"
    by blast
  then have c: "fst (callback (ex_env 3000 [''G1'']) ex_query
        (router_run [Sweep 2500] (snd (callback (ex_env 2000 [''G1'']) ex_query ex_logged))))
       = Oidc_error msg_invalid_session"
    by simp
  from ex_logged_facts(1) a b c show ?thesis by blast
qed

text \<open>C2 as stated fails: the callback that presents \<^verbatim>\<open>S1\<close> together with a provider
  error leaves the session registered, and the next callback that presents \<^verbatim>\<open>S1\<close>
  is served.\<close>

theorem provider_error_keeps_token_counterexample:
  "authSessions (snd (callback (ex_env 2000 [''G1'']) ex_error_query ex_logged)) ''S1''
     = Some ex_session
   \<and> fst (callback (ex_env 3000 [''G1'']) ex_query
        (snd (callback (ex_env 2000 [''G1'']) ex_error_query ex_logged)))
     = Oidc_code ''rnd''"
proof -
  have same: "snd (callback (ex_env 2000 [''G1'']) ex_error_query ex_logged) = ex_logged"
    by (simp add: callback_def ex_error_query_def)
  have served: "fst (callback (ex_env 3000 [''G1'']) ex_query ex_logged) = Oidc_code ''rnd''"
    by (rule ex_callback_ok) simp
  from same served ex_logged_facts(1) show ?thesis by simp
qed

theorem expired_session_rejected_witness:
  "expiresAt ex_session < cb_now (ex_env 601001 [''G1''])
   \<and> fst (callback (ex_env 601001 [''G1'']) ex_query ex_logged) = Oidc_error msg_session_expired
   \<and> authSessions (snd (callback (ex_env 601001 [''G1'']) ex_query ex_logged)) ''S1'' = None
   \<and> sweep 601000 (authSessions ex_logged) ''S1'' = Some ex_session
   \<and> callback (ex_env 601000 [''G1'']) ex_query ex_logged
       = callback_exchange (ex_env 601000 [''G1'']) ex_query ''S1'' ex_session
           (ex_logged\<lparr>authSessions := (authSessions ex_logged)(''S1'' := None)\<rparr>)"
proof -
  have expired: "expiresAt ex_session < cb_now (ex_env 601001 [''G1''])"
    by (simp add: ex_session_def ex_env_def)
  have live: "\<not> expiresAt ex_session < cb_now (ex_env 601000 [''G1''])"
    by (simp add: ex_session_def ex_env_def)
  note th = expired_session_rejected [OF ex_query_facts(1) ex_query_facts(2) ex_query_facts(3)
      ex_logged_facts(1)]
  from th [of "ex_env 601001 [''G1'']"] expired
  have rejected: "callback (ex_env 601001 [''G1'']) ex_query ex_logged
      = (Oidc_error msg_session_expired,
         ex_logged\<lparr>authSessions := (authSessions ex_logged)(''S1'' := None)\<rparr>)"
    by blast
  then have a: "fst (callback (ex_env 601001 [''G1'']) ex_query ex_logged)
      = Oidc_error msg_session_expired"
    by simp
  from rejected
  have b: "authSessions (snd (callback (ex_env 601001 [''G1'']) ex_query ex_logged)) ''S1''
      = None"
    by simp
  have "(601000 :: int) \<le> expiresAt ex_session" by (simp add: ex_session_def)
  with th [of "ex_env 601001 [''G1'']"]
  have c: "sweep 601000 (authSessions ex_logged) ''S1'' = Some ex_session" by blast
  from th [of "ex_env 601000 [''G1'']"] live
  have d: "callback (ex_env 601000 [''G1'']) ex_query ex_logged
       = callback_exchange (ex_env 601000 [''G1'']) ex_query ''S1'' ex_session
           (ex_logged\<lparr>authSessions := (authSessions ex_logged)(''S1'' := None)\<rparr>)"
    by blast
  from expired a b c d show ?thesis by blast
qed

text \<open>C8 as stated fails: at the expiry time itself, 601000, the session is still
  accepted and the callback issues a login code.\<close>

theorem session_at_expiry_counterexample:
  "authSessions ex_logged ''S1'' = Some ex_session
   \<and> expiresAt ex_session \<le> cb_now (ex_env 601000 [''G1''])
   \<and> fst (callback (ex_env 601000 [''G1'']) ex_query ex_logged) = Oidc_code ''rnd''"
proof -
  have a: "expiresAt ex_session \<le> cb_now (ex_env 601000 [''G1''])"
    by (simp add: ex_session_def ex_env_def)
  have b: "fst (callback (ex_env 601000 [''G1'']) ex_query ex_logged) = Oidc_code ''rnd''"
    by (rule ex_callback_ok) simp
  from ex_logged_facts(1) a b show ?thesis by blast
qed

theorem group_denied_no_effect_witness:
  "callback (ex_env 2000 [''G2'']) ex_query ex_logged
     = (Oidc_error msg_not_authorized,
        ex_logged\<lparr>authSessions := (authSessions ex_logged)(''S1'' := None)\<rparr>)
   \<and> users (snd (callback (ex_env 2000 [''G2'']) ex_query ex_logged)) = [ex_alice, ex_bob, ex_carol]
   \<and> login_codes (snd (callback (ex_env 2000 [''G2'']) ex_query ex_logged)) = ex_codes"
proof -
  have live: "\<not> expiresAt ex_session < cb_now (ex_env 2000 [''G2''])"
    by (simp add: ex_session_def ex_env_def)
  have on: "enabled (getOidcSettings (settings ex_logged))"
    by (simp add: ex_logged_facts(2) ex_configured_cfg)
  have authenticated: "cb_provider (ex_env 2000 [''G2''])
      (exchange_request_of (getOidcSettings (settings ex_logged)) ex_query ''S1'' ex_session)
        = Inr (ex_claims [''G2''])"
    by (simp add: ex_env_def)
  have configured: "allowedGroups (getOidcSettings (settings ex_logged)) = JArr [JStr ''G1'']"
    "[JStr ''G1''] \<noteq> []"
    by (simp_all add: ex_logged_facts(2) ex_configured_cfg)
  have disjoint: "set [JStr ''G1''] \<inter> JStr ` set (claimed_groups (ex_claims [''G2''])) = {}"
    by (simp add: claimed_groups_def ex_claims_def)
  from group_denied_no_effect [OF ex_query_facts(1) ex_query_facts(2) ex_query_facts(3)
      ex_logged_facts(1) live on authenticated configured disjoint]
  show ?thesis by (simp add: ex_logged_facts)
qed


section \<open>Racing callers\<close>













text \<open>Run one after the other, the same two calls give one login and one rejection.\<close>

lemma ex_sequential:
  "exchange_responses [ex_call 1, ex_call 2] ex_state
     = [Some (LoginOk ''jwt-bob'' (Some ''viewer'')),
        Some (LoginFailed ''Invalid or expired login code'')]"
  by (simp add: ex_call_def ex_state_def ex_codes_def findOne_login_code_unused_def
      store_login_code_def findOne_user_active_def ex_alice_def ex_bob_def ex_carol_def
      ex_jwt_def or_default_def loginByOidcCode_def exchange_step_def Let_def)

end
